theory Spec2Isabelle
  imports Complex_Main
begin

section \<open>Rainfall PDF parser service: the two ingestion handlers of main.py\<close>

text \<open>
  The handlers \<open>process_pdf\<close> and \<open>process_pdf_base64\<close> of \<^verbatim>\<open>src/main.py\<close> are
  embedded as state-passing functions. Everything a handler touches outside its own
  variables is made explicit:
  \<^item> the \<open>world\<close> record is what a request can change: the files of the temporary
    directory, the documents of the collection \<^verbatim>\<open>rainfall-data.rainfalldatas\<close>, and
    counters of the \<^verbatim>\<open>MongoClient\<close> objects constructed and closed;
  \<^item> the \<open>env\<close> record is how the collaborators that are not part of main.py answer
    during one request: the parser, \<^verbatim>\<open>base64.b64decode\<close>, \<^verbatim>\<open>tempfile\<close>, \<^verbatim>\<open>os.unlink\<close>,
    \<^verbatim>\<open>os.environ\<close>, the MongoDB driver, \<^verbatim>\<open>time.time\<close> and the \<^verbatim>\<open>__str__\<close> of the
    framework's exception class. Each call that can raise has its failure as a value
    of \<open>env\<close>, so every \<^verbatim>\<open>raise\<close>, \<^verbatim>\<open>except\<close> and \<^verbatim>\<open>finally\<close> of the source is a
    branch of the model.
  Calls to \<^verbatim>\<open>logger\<close> change nothing a handler returns or stores and are left out.
\<close>

subsection \<open>Python values\<close>

text \<open>
  An exception is either the framework's \<^verbatim>\<open>HTTPException(status_code, detail)\<close> or any
  other exception, kept as the text \<^verbatim>\<open>str(e)\<close> gives for it.
\<close>

datatype exn = HTTPException nat string | Exception string

text \<open>Strings are byte strings (UTF-8); \<^verbatim>\<open>str.lower\<close> is modelled on ASCII letters,
  which is all that \<^verbatim>\<open>endswith('.pdf')\<close> can observe.\<close>

definition lower_char :: "char \<Rightarrow> char" where
  "lower_char c =
     (let n = (of_char c :: nat) in if 65 \<le> n \<and> n \<le> 90 then char_of (n + 32) else c)"

definition lower :: "string \<Rightarrow> string" where
  "lower s = map lower_char s"

definition endswith :: "string \<Rightarrow> string \<Rightarrow> bool" where
  "endswith s suf = (length suf \<le> length s \<and> drop (length s - length suf) s = suf)"

text \<open>\<^verbatim>\<open>str(n)\<close> for a non-negative integer, as the f-strings of the responses use it.\<close>

definition digit_char :: "nat \<Rightarrow> char" where
  "digit_char d = char_of (48 + d)"

function str_nat :: "nat \<Rightarrow> string" where
  "str_nat n = (if n < 10 then [digit_char n] else str_nat (n div 10) @ [digit_char (n mod 10)])"
  by pat_completeness auto
termination
  by (relation "measure id") auto

declare str_nat.simps [simp del]

text \<open>\<^verbatim>\<open>int(x)\<close> on a float truncates towards zero.\<close>

definition py_int :: "real \<Rightarrow> int" where
  "py_int x = (if 0 \<le> x then \<lfloor>x\<rfloor> else \<lceil>x\<rceil>)"

subsection \<open>A base64 decoder\<close>

text \<open>
  \<^verbatim>\<open>base64.b64decode(s)\<close> of CPython 3.11 on a \<^verbatim>\<open>str\<close>, without validation: a
  character outside ASCII raises \<^verbatim>\<open>ValueError\<close>; characters outside the alphabet are
  skipped; a padding character counts only after two data characters of a quad, and a
  completed padding ends the input; data left in an unfinished quad raises
  \<^verbatim>\<open>binascii.Error\<close>. The handlers are proved for every decoder (it is a field of
  \<open>env\<close>); this one serves the concrete requests.
\<close>

definition b64_value :: "char \<Rightarrow> nat option" where
  "b64_value c =
     (let n = (of_char c :: nat) in
      if 65 \<le> n \<and> n \<le> 90 then Some (n - 65)
      else if 97 \<le> n \<and> n \<le> 122 then Some (n - 71)
      else if 48 \<le> n \<and> n \<le> 57 then Some (n + 4)
      else if n = 43 then Some 62
      else if n = 47 then Some 63
      else None)"

definition one_more_than_quads :: "nat \<Rightarrow> string" where
  "one_more_than_quads n =
     ''Invalid base64-encoded string: number of data characters ('' @ str_nat n @
     '') cannot be 1 more than a multiple of 4''"

fun a2b_base64 :: "nat \<Rightarrow> nat \<Rightarrow> nat \<Rightarrow> string \<Rightarrow> string \<Rightarrow> string + string" where
  "a2b_base64 quad_pos leftchar pads out [] =
     (if quad_pos = 0 then Inr out
      else if quad_pos = 1 then Inl (one_more_than_quads (length out div 3 * 4 + 1))
      else Inl ''Incorrect padding'')"
| "a2b_base64 quad_pos leftchar pads out (c # cs) =
     (if c = CHR ''='' then
        (if 2 \<le> quad_pos then
           (if 4 \<le> quad_pos + (pads + 1) then Inr out
            else a2b_base64 quad_pos leftchar (pads + 1) out cs)
         else a2b_base64 quad_pos leftchar pads out cs)
      else
        (case b64_value c of
           None \<Rightarrow> a2b_base64 quad_pos leftchar pads out cs
         | Some v \<Rightarrow>
             if quad_pos = 0 then a2b_base64 1 v 0 out cs
             else if quad_pos = 1 then
               a2b_base64 2 (v mod 16) 0 (out @ [char_of (leftchar * 4 + v div 16)]) cs
             else if quad_pos = 2 then
               a2b_base64 3 (v mod 4) 0 (out @ [char_of (leftchar * 16 + v div 4)]) cs
             else a2b_base64 0 0 0 (out @ [char_of (leftchar * 64 + v)]) cs))"

definition b64decode_cpython :: "string \<Rightarrow> string + string" where
  "b64decode_cpython s =
     (if list_ex (\<lambda>c. 128 \<le> (of_char c :: nat)) s
      then Inl ''string argument should contain only ASCII characters''
      else a2b_base64 0 0 0 [] s)"

subsection \<open>The data frame returned by the parser\<close>

text \<open>
  A cell of a data frame, and a value of a record's field. A record (a Python dict, a
  stored document) is a map from field names to cells.
\<close>

datatype cell = Str string | Num int | NaN

type_synonym document = "string \<rightharpoonup> cell"

text \<open>
  A pandas data frame: an index of \<open>index_len\<close> rows and a list of labelled columns, each
  giving the cell of every row. The handlers use three operations of it:
  \<^verbatim>\<open>df.empty\<close> (an axis of length 0), \<^verbatim>\<open>df[key] = scalar\<close> (every column labelled
  \<open>key\<close> is overwritten with the scalar; with no such column, one is appended) and
  \<^verbatim>\<open>df.to_dict('records')\<close> (one dict per row, built from the row's cells in column
  order, so a later column of the same label wins; a frame without columns has no
  row tuples and gives the empty list).
\<close>

record dataframe =
  index_len :: nat
  columns :: "(string \<times> (nat \<Rightarrow> cell)) list"

definition df_empty :: "dataframe \<Rightarrow> bool" where
  "df_empty df = (index_len df = 0 \<or> columns df = [])"

definition overwrite :: "string \<Rightarrow> cell \<Rightarrow> string \<times> (nat \<Rightarrow> cell) \<Rightarrow> string \<times> (nat \<Rightarrow> cell)" where
  "overwrite key v = (\<lambda>(c, f). if c = key then (c, \<lambda>_. v) else (c, f))"

definition setitem :: "dataframe \<Rightarrow> string \<Rightarrow> cell \<Rightarrow> dataframe" where
  "setitem df key v =
     (if key \<in> set (map fst (columns df))
      then df\<lparr>columns := map (overwrite key v) (columns df)\<rparr>
      else df\<lparr>columns := columns df @ [(key, \<lambda>_. v)]\<rparr>)"

fun dict_zip :: "document \<Rightarrow> (string \<times> (nat \<Rightarrow> cell)) list \<Rightarrow> nat \<Rightarrow> document" where
  "dict_zip d [] i = d"
| "dict_zip d ((c, f) # cs) i = dict_zip (d(c \<mapsto> f i)) cs i"

definition row_dict :: "(string \<times> (nat \<Rightarrow> cell)) list \<Rightarrow> nat \<Rightarrow> document" where
  "row_dict cs i = dict_zip Map.empty cs i"

definition to_dict_records :: "dataframe \<Rightarrow> document list" where
  "to_dict_records df =
     (if columns df = [] then [] else map (row_dict (columns df)) [0..<index_len df])"

subsection \<open>Requests, responses, the world and the collaborators\<close>

text \<open>\<^verbatim>\<open>UploadFile\<close>: \<open>filename\<close> and \<open>size\<close> are both \<^verbatim>\<open>Optional\<close> in the framework;
  \<open>content\<close> is what \<^verbatim>\<open>await pdf_file.read()\<close> returns.\<close>

record upload_file =
  filename :: "string option"
  file_size :: "nat option"
  content :: string

record PDFProcessRequest =
  pdf_data :: string
  date :: string

record PDFProcessResponse =
  success :: bool
  records_count :: nat
  message :: string
  processing_time_ms :: int

record world =
  files :: "string \<rightharpoonup> string"
  store :: "document list"
  clients_opened :: nat
  clients_closed :: nat

record env =
  exc_str :: "nat \<Rightarrow> string \<Rightarrow> string"
  b64decode :: "string \<Rightarrow> string + string"
  tmp_names :: "string list"
  write_error :: "(nat \<times> string) option"
  process_pdf_to_dataframe :: "string \<Rightarrow> string + dataframe"
  unlink_fails :: bool
  environ_MONGODB_URI :: "string option"
  MongoClient_error :: "string \<Rightarrow> string option"
  ping_error :: "string \<Rightarrow> string option"
  insert_many_error :: "document list \<Rightarrow> (nat \<times> string) option"
  close_error :: "string \<Rightarrow> string option"
  time_start :: real
  time_end :: real

text \<open>
  The fields of \<open>env\<close>:
  \<^item> \<open>exc_str s d\<close> is \<^verbatim>\<open>str(HTTPException(status_code=s, detail=d))\<close>, which depends on
    the framework's version;
  \<^item> \<open>b64decode\<close> returns the decoded bytes or the message of the error it raises;
  \<^item> \<open>tmp_names\<close> are the candidate names \<^verbatim>\<open>tempfile\<close> tries in turn; it takes the first
    that does not exist and raises when none is left;
  \<^item> \<open>write_error = Some (k, msg)\<close>: \<^verbatim>\<open>temp_file.write\<close> raises \<open>msg\<close> after \<open>k\<close> bytes;
  \<^item> \<open>process_pdf_to_dataframe\<close> is the parser on the bytes of the staged file: a frame,
    or the message of the exception it raises;
  \<^item> \<open>unlink_fails\<close>: \<^verbatim>\<open>os.unlink\<close> raises;
  \<^item> \<open>MongoClient_error uri\<close>, \<open>ping_error uri\<close>, \<open>close_error uri\<close>: the message of
    the exception the constructor, the ping, respectively \<^verbatim>\<open>client.close()\<close> raises, if
    any;
  \<^item> \<open>insert_many_error docs = Some (k, msg)\<close>: the ordered bulk insert raises \<open>msg\<close>
    after the server has stored the first \<open>k\<close> documents (the store is the list of the
    documents as the handler built them; the identifiers the driver adds are left out);
  \<^item> \<open>time_start\<close>, \<open>time_end\<close>: the two readings of \<^verbatim>\<open>time.time()\<close>.
  The import statements of lines 123--124 and 219--220 are taken to succeed, as those at
  the head of the module did.
\<close>

definition str_exn :: "env \<Rightarrow> exn \<Rightarrow> string" where
  "str_exn ev e = (case e of HTTPException s d \<Rightarrow> exc_str ev s d | Exception m \<Rightarrow> m)"

definition quote :: string where
  "quote = [CHR 0x27]"

definition AttributeError_lower :: string where
  "AttributeError_lower =
     quote @ ''NoneType'' @ quote @ '' object has no attribute '' @ quote @ ''lower'' @ quote"

definition TypeError_gt :: string where
  "TypeError_gt =
     quote @ ''>'' @ quote @ '' not supported between instances of '' @
     quote @ ''NoneType'' @ quote @ '' and '' @ quote @ ''int'' @ quote"

definition max_size :: nat where
  "max_size = 10 * 1024 * 1024"

subsection \<open>Staging: the temporary file\<close>

text \<open>
  \<^verbatim>\<open>with tempfile.NamedTemporaryFile(suffix='.pdf', delete=False) as temp_file:
      temp_file.write(data); temp_path = temp_file.name\<close>
  The file exists from its creation on; with \<^verbatim>\<open>delete=False\<close> leaving the \<^verbatim>\<open>with\<close>
  block does not remove it, also when \<^verbatim>\<open>write\<close> raises.
\<close>

definition NamedTemporaryFile_write :: "env \<Rightarrow> string \<Rightarrow> world \<Rightarrow> (exn + string) \<times> world" where
  "NamedTemporaryFile_write ev data w =
     (case find (\<lambda>p. files w p = None) (tmp_names ev) of
        None \<Rightarrow> (Inl (Exception ''[Errno 17] No usable temporary file name found''), w)
      | Some p \<Rightarrow>
          (case write_error ev of
             Some (k, msg) \<Rightarrow> (Inl (Exception msg), w\<lparr>files := (files w)(p \<mapsto> take k data)\<rparr>)
           | None \<Rightarrow> (Inr p, w\<lparr>files := (files w)(p \<mapsto> data)\<rparr>)))"

text \<open>
  \<^verbatim>\<open>try: os.unlink(temp_path)  except: pass\<close>
  The statement \<^verbatim>\<open>import os\<close> of line 124 (220) stands inside the handler, which makes
  \<open>os\<close> a local variable of the whole function body. Until that statement has run the
  name is unbound, and \<^verbatim>\<open>os.unlink\<close> raises \<^verbatim>\<open>UnboundLocalError\<close>, which the bare
  \<^verbatim>\<open>except\<close> swallows like any failure of the deletion itself. \<open>os_bound\<close> says
  whether line 124 (220) has run.
\<close>

definition unlink_quietly :: "env \<Rightarrow> bool \<Rightarrow> string \<Rightarrow> world \<Rightarrow> world" where
  "unlink_quietly ev os_bound p w =
     (if \<not> os_bound \<or> unlink_fails ev then w else w\<lparr>files := (files w)(p := None)\<rparr>)"

subsection \<open>Persistence: lines 121--148 and 217--244\<close>

text \<open>\<^verbatim>\<open>client.close()\<close>, the last statement of the inner \<^verbatim>\<open>try\<close>.\<close>

definition close_client :: "env \<Rightarrow> string \<Rightarrow> world \<Rightarrow> (exn + unit) \<times> world" where
  "close_client ev uri w =
     (case close_error ev uri of
        Some msg \<Rightarrow> (Inl (Exception msg), w)
      | None \<Rightarrow> (Inr (), w\<lparr>clients_closed := clients_closed w + 1\<rparr>))"

text \<open>The body of the inner \<^verbatim>\<open>try\<close>; \<^verbatim>\<open>not MONGO_URI\<close> holds for \<^verbatim>\<open>None\<close> and for
  the empty string.\<close>

definition upload_try :: "env \<Rightarrow> document list \<Rightarrow> world \<Rightarrow> (exn + unit) \<times> world" where
  "upload_try ev records w =
     (case environ_MONGODB_URI ev of
        None \<Rightarrow> (Inl (HTTPException 500 ''MONGODB_URI environment variable not set''), w)
      | Some uri \<Rightarrow>
          if uri = [] then
            (Inl (HTTPException 500 ''MONGODB_URI environment variable not set''), w)
          else
            (case MongoClient_error ev uri of
               Some msg \<Rightarrow> (Inl (Exception msg), w)
             | None \<Rightarrow>
                 let w1 = w\<lparr>clients_opened := clients_opened w + 1\<rparr> in
                 (case ping_error ev uri of
                    Some msg \<Rightarrow> (Inl (Exception msg), w1)
                  | None \<Rightarrow>
                      if records \<noteq> [] then
                        (case insert_many_error ev records of
                           Some (k, msg) \<Rightarrow>
                             (Inl (Exception msg), w1\<lparr>store := store w1 @ take k records\<rparr>)
                         | None \<Rightarrow> close_client ev uri (w1\<lparr>store := store w1 @ records\<rparr>))
                      else close_client ev uri w1)))"

text \<open>\<^verbatim>\<open>except Exception as e: raise HTTPException(500, f"MongoDB upload failed: {str(e)}")\<close>;
  \<^verbatim>\<open>HTTPException\<close> is an \<^verbatim>\<open>Exception\<close>, so this handler also takes the one raised for
  the missing connection string.\<close>

definition upload_to_mongodb :: "env \<Rightarrow> document list \<Rightarrow> world \<Rightarrow> (exn + unit) \<times> world" where
  "upload_to_mongodb ev records w =
     (case upload_try ev records w of
        (Inl e, w') \<Rightarrow> (Inl (HTTPException 500 (''MongoDB upload failed: '' @ str_exn ev e)), w')
      | (Inr u, w') \<Rightarrow> (Inr u, w'))"

subsection \<open>Parse, stamp, persist, respond: lines 106--166 and 202--262\<close>

text \<open>The two handlers have the same text here, up to the expression of the date.\<close>

definition success_message :: "nat \<Rightarrow> string" where
  "success_message n =
     ''PDF processed successfully. '' @ str_nat n @ '' records extracted and uploaded to MongoDB.''"

text \<open>\<^verbatim>\<open>int((time.time() - start_time) * 1000)\<close>, on the two readings as real numbers.
  The rounding of the floating-point subtraction and product is not modelled: the value
  can differ from the code's by the rounding, its sign cannot.\<close>

definition processing_time :: "env \<Rightarrow> int" where
  "processing_time ev = py_int ((time_end ev - time_start ev) * 1000)"

text \<open>
  The body of the \<^verbatim>\<open>try\<close> of lines 106--159 (202--255). Besides the outcome and the
  world it returns whether the local \<open>os\<close> is bound when the body is left: it is
  not on the exits before the inner \<^verbatim>\<open>try\<close> (the parser raises, the frame is empty)
  and it is on every exit after line 124 (220).
\<close>

definition parse_and_upload ::
  "env \<Rightarrow> string \<Rightarrow> string \<Rightarrow> world \<Rightarrow> (exn + PDFProcessResponse) \<times> bool \<times> world" where
  "parse_and_upload ev dt temp_path w =
     (case files w temp_path of
        None \<Rightarrow> (Inl (Exception ''No such file or directory''), False, w)
      | Some bytes \<Rightarrow>
          (case process_pdf_to_dataframe ev bytes of
             Inl msg \<Rightarrow> (Inl (Exception msg), False, w)
           | Inr df \<Rightarrow>
               if df_empty df then
                 (Inl (HTTPException 400 ''No data could be extracted from the PDF''), False, w)
               else
                 let df' = setitem df ''date'' (Str dt);
                     records = to_dict_records df';
                     count = length records
                 in (case upload_to_mongodb ev records w of
                       (Inl e, w') \<Rightarrow> (Inl e, True, w')
                     | (Inr _, w') \<Rightarrow>
                         (Inr \<lparr>success = True, records_count = count,
                               message = success_message count,
                               processing_time_ms = processing_time ev\<rparr>, True, w'))))"

text \<open>\<^verbatim>\<open>try: ...  finally: try: os.unlink(temp_path)  except: pass\<close>\<close>

definition process_staged ::
  "env \<Rightarrow> string \<Rightarrow> string \<Rightarrow> world \<Rightarrow> (exn + PDFProcessResponse) \<times> world" where
  "process_staged ev dt temp_path w =
     (case parse_and_upload ev dt temp_path w of
        (r, os_bound, w') \<Rightarrow> (r, unlink_quietly ev os_bound temp_path w'))"

text \<open>The outer handlers: \<^verbatim>\<open>except HTTPException: raise\<close> and
  \<^verbatim>\<open>except Exception as e: raise HTTPException(500, f"Failed to process PDF: {str(e)}")\<close>.\<close>

definition outer_except :: "exn \<Rightarrow> exn" where
  "outer_except e =
     (case e of
        HTTPException s d \<Rightarrow> HTTPException s d
      | Exception m \<Rightarrow> HTTPException 500 (''Failed to process PDF: '' @ m))"

definition handle_outer ::
  "(exn + PDFProcessResponse) \<times> world \<Rightarrow> (exn + PDFProcessResponse) \<times> world" where
  "handle_outer rw = (case rw of (Inl e, w) \<Rightarrow> (Inl (outer_except e), w) | (Inr r, w) \<Rightarrow> (Inr r, w))"

subsection \<open>The handlers\<close>

definition process_pdf_try ::
  "env \<Rightarrow> upload_file \<Rightarrow> string \<Rightarrow> world \<Rightarrow> (exn + PDFProcessResponse) \<times> world" where
  "process_pdf_try ev pdf_file dt w =
     (case filename pdf_file of
        None \<Rightarrow> (Inl (Exception AttributeError_lower), w)
      | Some name \<Rightarrow>
          if \<not> endswith (lower name) ''.pdf'' then
            (Inl (HTTPException 400 ''File must be a PDF''), w)
          else
            (case file_size pdf_file of
               None \<Rightarrow> (Inl (Exception TypeError_gt), w)
             | Some n \<Rightarrow>
                 if n > max_size then
                   (Inl (HTTPException 400 ''File size must be less than 10MB''), w)
                 else
                   (case NamedTemporaryFile_write ev (content pdf_file) w of
                      (Inl e, w1) \<Rightarrow> (Inl e, w1)
                    | (Inr temp_path, w1) \<Rightarrow> process_staged ev dt temp_path w1)))"

definition process_pdf ::
  "env \<Rightarrow> upload_file \<Rightarrow> string \<Rightarrow> world \<Rightarrow> (exn + PDFProcessResponse) \<times> world" where
  "process_pdf ev pdf_file dt w = handle_outer (process_pdf_try ev pdf_file dt w)"

definition process_pdf_base64_try ::
  "env \<Rightarrow> PDFProcessRequest \<Rightarrow> world \<Rightarrow> (exn + PDFProcessResponse) \<times> world" where
  "process_pdf_base64_try ev request w =
     (case b64decode ev (pdf_data request) of
        Inl msg \<Rightarrow> (Inl (HTTPException 400 (''Invalid base64 data: '' @ msg)), w)
      | Inr data \<Rightarrow>
          (case NamedTemporaryFile_write ev data w of
             (Inl e, w1) \<Rightarrow> (Inl e, w1)
           | (Inr temp_path, w1) \<Rightarrow> process_staged ev (date request) temp_path w1))"

definition process_pdf_base64 ::
  "env \<Rightarrow> PDFProcessRequest \<Rightarrow> world \<Rightarrow> (exn + PDFProcessResponse) \<times> world" where
  "process_pdf_base64 ev request w = handle_outer (process_pdf_base64_try ev request w)"

subsection \<open>Vocabulary of the properties\<close>

text \<open>The batch of stamped records of a frame (lines 114--118).\<close>

abbreviation stamped :: "string \<Rightarrow> dataframe \<Rightarrow> document list" where
  "stamped dt df \<equiv> to_dict_records (setitem df ''date'' (Str dt))"

text \<open>An upload passes both checks of lines 87--94.\<close>

definition accepted :: "upload_file \<Rightarrow> bool" where
  "accepted f =
     (case filename f of
        None \<Rightarrow> False
      | Some name \<Rightarrow>
          endswith (lower name) ''.pdf'' \<and>
          (case file_size f of None \<Rightarrow> False | Some n \<Rightarrow> n \<le> max_size))"

text \<open>Staging completes: a free name is found and the write does not raise.\<close>

definition staging_completes :: "env \<Rightarrow> world \<Rightarrow> bool" where
  "staging_completes ev w =
     (find (\<lambda>p. files w p = None) (tmp_names ev) \<noteq> None \<and> write_error ev = None)"

text \<open>The connection string is absent for the handler: \<^verbatim>\<open>not MONGO_URI\<close>.\<close>

definition uri_absent :: "env \<Rightarrow> bool" where
  "uri_absent ev = (environ_MONGODB_URI ev = None \<or> environ_MONGODB_URI ev = Some [])"

text \<open>Persistence of a batch succeeds: no call of the inner \<^verbatim>\<open>try\<close> raises.\<close>

definition persistence_succeeds :: "env \<Rightarrow> document list \<Rightarrow> bool" where
  "persistence_succeeds ev records =
     (case environ_MONGODB_URI ev of
        None \<Rightarrow> False
      | Some uri \<Rightarrow>
          uri \<noteq> [] \<and> MongoClient_error ev uri = None \<and> ping_error ev uri = None \<and>
          insert_many_error ev records = None \<and> close_error ev uri = None)"

text \<open>The batch a request hands to the store, when its extraction gives one.\<close>

definition batch_of :: "env \<Rightarrow> string \<Rightarrow> string \<Rightarrow> document list" where
  "batch_of ev dt bytes =
     (case process_pdf_to_dataframe ev bytes of
        Inl msg \<Rightarrow> []
      | Inr df \<Rightarrow> if df_empty df then [] else stamped dt df)"

subsection \<open>Concrete requests and collaborators\<close>

text \<open>A frame of two rows and two columns, a world without files, documents or
  clients, and collaborators that all answer without raising.\<close>

definition frame2 :: dataframe where
  "frame2 =
     \<lparr>index_len = 2,
      columns = [(''station'', \<lambda>i. if i = 0 then Str ''Pune'' else Str ''Nagpur''),
                 (''rainfall'', \<lambda>i. if i = 0 then Num 12 else Num 7)]\<rparr>"

definition frame0 :: dataframe where
  "frame0 = \<lparr>index_len = 0, columns = [(''station'', \<lambda>i. NaN)]\<rparr>"

definition world0 :: world where
  "world0 = \<lparr>files = Map.empty, store = [], clients_opened = 0, clients_closed = 0\<rparr>"

definition env_ok :: env where
  "env_ok =
     \<lparr>exc_str = (\<lambda>s d. str_nat s @ '': '' @ d),
      b64decode = b64decode_cpython,
      tmp_names = [''/tmp/tmpa1.pdf''],
      write_error = None,
      process_pdf_to_dataframe = (\<lambda>bytes. Inr frame2),
      unlink_fails = False,
      environ_MONGODB_URI = Some ''mongodb://db'',
      MongoClient_error = (\<lambda>uri. None),
      ping_error = (\<lambda>uri. None),
      insert_many_error = (\<lambda>docs. None),
      close_error = (\<lambda>uri. None),
      time_start = 100,
      time_end = 101\<rparr>"

text \<open>Variants of the collaborators: the parser finds no row; the connection string
  is not set (with a parser that finds rows, and with one that finds none); the parser
  raises; closing the client raises; the ping raises; the bulk insert raises after the
  first document; the deletion of the temporary file raises; the wall clock is set back
  during the request.\<close>

definition env_no_rows :: env where
  "env_no_rows = env_ok\<lparr>process_pdf_to_dataframe := (\<lambda>bytes. Inr frame0)\<rparr>"

definition env_no_uri :: env where
  "env_no_uri = env_ok\<lparr>environ_MONGODB_URI := None\<rparr>"

definition env_no_uri_no_rows :: env where
  "env_no_uri_no_rows = env_no_rows\<lparr>environ_MONGODB_URI := None\<rparr>"

definition env_parser_raises :: env where
  "env_parser_raises =
     env_ok\<lparr>process_pdf_to_dataframe := (\<lambda>bytes. Inl ''EOF marker not found'')\<rparr>"

definition env_close_raises :: env where
  "env_close_raises = env_ok\<lparr>close_error := (\<lambda>uri. Some ''connection reset'')\<rparr>"

definition env_ping_down :: env where
  "env_ping_down = env_ok\<lparr>ping_error := (\<lambda>uri. Some ''timed out'')\<rparr>"

definition env_insert_partial :: env where
  "env_insert_partial = env_ok\<lparr>insert_many_error := (\<lambda>docs. Some (1, ''write error''))\<rparr>"

definition env_unlink_fails :: env where
  "env_unlink_fails = env_ok\<lparr>unlink_fails := True\<rparr>"

definition env_clock_back :: env where
  "env_clock_back = env_ok\<lparr>time_start := 100, time_end := 99\<rparr>"

definition upload_pdf :: upload_file where
  "upload_pdf = \<lparr>filename = Some ''Report.PDF'', file_size = Some 3, content = ''abc''\<rparr>"

definition upload_txt :: upload_file where
  "upload_txt = \<lparr>filename = Some ''notes.txt'', file_size = Some 3, content = ''abc''\<rparr>"

definition upload_big_txt :: upload_file where
  "upload_big_txt =
     \<lparr>filename = Some ''notes.txt'', file_size = Some 11534336,
      content = replicate 11534336 CHR ''a''\<rparr>"

definition upload_big_pdf :: upload_file where
  "upload_big_pdf =
     \<lparr>filename = Some ''big.pdf'', file_size = Some 11534336,
      content = replicate 11534336 CHR ''a''\<rparr>"

definition upload_no_size :: upload_file where
  "upload_no_size = \<lparr>filename = Some ''report.pdf'', file_size = None, content = ''abc''\<rparr>"

definition request_b64 :: PDFProcessRequest where
  "request_b64 = \<lparr>pdf_data = ''YWJj'', date = ''15/01/2024''\<rparr>"

section \<open>Auxiliary facts\<close>

subsection \<open>Rows of a frame after a column assignment\<close>

lemma dict_zip_absorb:
  "(dict_zip (d(key \<mapsto> x)) cs i)(key \<mapsto> v) = (dict_zip d cs i)(key \<mapsto> v)"
proof (induction cs arbitrary: d x)
  case Nil
  show ?case by (simp del: fun_upd_apply)
next
  case (Cons a cs)
  obtain c f where a: "a = (c, f)" by (cases a)
  show ?case
  proof (cases "c = key")
    case True
    then show ?thesis using a by (simp del: fun_upd_apply)
  next
    case False
    then have "(d(key \<mapsto> x))(c \<mapsto> f i) = (d(c \<mapsto> f i))(key \<mapsto> x)"
      by (simp add: fun_upd_twist)
    then show ?thesis using a Cons.IH [of "d(c \<mapsto> f i)" x] by (simp del: fun_upd_apply)
  qed
qed

lemma dict_zip_fresh:
  "key \<notin> set (map fst cs) \<Longrightarrow> dict_zip (d(key \<mapsto> v)) cs i = (dict_zip d cs i)(key \<mapsto> v)"
proof (induction cs arbitrary: d)
  case Nil
  show ?case by (simp del: fun_upd_apply)
next
  case (Cons a cs)
  obtain c f where a: "a = (c, f)" by (cases a)
  from Cons.prems a have ne: "c \<noteq> key" and fresh: "key \<notin> set (map fst cs)" by auto
  from ne have "(d(key \<mapsto> v))(c \<mapsto> f i) = (d(c \<mapsto> f i))(key \<mapsto> v)"
    by (simp add: fun_upd_twist)
  then show ?case using a Cons.IH [OF fresh, of "d(c \<mapsto> f i)"] by (simp del: fun_upd_apply)
qed

lemma overwrite_id: "key \<notin> set (map fst cs) \<Longrightarrow> map (overwrite key v) cs = cs"
  by (induction cs) (auto simp: overwrite_def)

lemma dict_zip_overwrite:
  "key \<in> set (map fst cs) \<Longrightarrow>
   dict_zip d (map (overwrite key v) cs) i = (dict_zip d cs i)(key \<mapsto> v)"
proof (induction cs arbitrary: d)
  case Nil
  then show ?case by simp
next
  case (Cons a cs)
  obtain c f where a: "a = (c, f)" by (cases a)
  show ?case
  proof (cases "c = key")
    case ck: True
    have "dict_zip (d(key \<mapsto> v)) (map (overwrite key v) cs) i =
          (dict_zip (d(key \<mapsto> v)) cs i)(key \<mapsto> v)"
    proof (cases "key \<in> set (map fst cs)")
      case True
      then show ?thesis by (rule Cons.IH)
    next
      case False
      then show ?thesis
        by (simp add: overwrite_id dict_zip_fresh del: fun_upd_apply)
    qed
    also have "\<dots> = (dict_zip (d(key \<mapsto> f i)) cs i)(key \<mapsto> v)"
      by (simp only: dict_zip_absorb)
    finally show ?thesis using ck a
      by (simp add: overwrite_def del: fun_upd_apply)
  next
    case False
    with Cons.prems a have "key \<in> set (map fst cs)" by auto
    then show ?thesis using False a Cons.IH by (simp add: overwrite_def del: fun_upd_apply)
  qed
qed

lemma dict_zip_append:
  "dict_zip d (cs @ [(key, \<lambda>_. v)]) i = (dict_zip d cs i)(key \<mapsto> v)"
  by (induction cs arbitrary: d) (auto simp del: fun_upd_apply)

lemma row_dict_setitem:
  "row_dict (columns (setitem df key v)) i = (row_dict (columns df) i)(key \<mapsto> v)"
proof (cases "key \<in> set (map fst (columns df))")
  case True
  then have "columns (setitem df key v) = map (overwrite key v) (columns df)"
    by (simp add: setitem_def)
  then show ?thesis
    using dict_zip_overwrite [OF True] by (simp add: row_dict_def)
next
  case False
  then have "columns (setitem df key v) = columns df @ [(key, \<lambda>_. v)]"
    by (simp add: setitem_def)
  then show ?thesis by (simp add: row_dict_def dict_zip_append)
qed

lemma to_dict_records_setitem:
  assumes "columns df \<noteq> [] \<or> index_len df = 0"
  shows "to_dict_records (setitem df key v) = map (\<lambda>r. r(key \<mapsto> v)) (to_dict_records df)"
proof -
  have il: "index_len (setitem df key v) = index_len df"
    by (simp add: setitem_def)
  have ne: "columns (setitem df key v) \<noteq> []"
    by (auto simp add: setitem_def)
  show ?thesis
  proof (cases "columns df = []")
    case True
    with assms have "index_len df = 0" by simp
    then show ?thesis using il by (simp add: to_dict_records_def)
  next
    case False
    then show ?thesis using il ne
      by (simp add: to_dict_records_def row_dict_setitem)
  qed
qed

lemma no_records_iff_empty: "to_dict_records df = [] \<longleftrightarrow> df_empty df"
  by (auto simp: to_dict_records_def df_empty_def)

subsection \<open>Staging\<close>

lemma find_fresh: "find (\<lambda>p. files w p = None) ns = Some p \<Longrightarrow> files w p = None"
  by (auto simp: find_Some_iff)

lemma staged_ok:
  "NamedTemporaryFile_write ev data w = (Inr p, w1) \<Longrightarrow>
   files w p = None \<and> w1 = w\<lparr>files := (files w)(p \<mapsto> data)\<rparr>"
  by (auto simp: NamedTemporaryFile_write_def find_fresh split: option.splits prod.splits)

lemma staged_fail:
  "NamedTemporaryFile_write ev data w = (Inl e, w1) \<Longrightarrow>
   (\<exists>m. e = Exception m) \<and> store w1 = store w \<and> clients_opened w1 = clients_opened w \<and>
   clients_closed w1 = clients_closed w"
  by (auto simp: NamedTemporaryFile_write_def split: option.splits prod.splits)

lemma staging_completes_write:
  "staging_completes ev w \<Longrightarrow>
   \<exists>p. files w p = None \<and>
       NamedTemporaryFile_write ev data w = (Inr p, w\<lparr>files := (files w)(p \<mapsto> data)\<rparr>)"
  by (auto simp: staging_completes_def NamedTemporaryFile_write_def find_fresh)

subsection \<open>Persistence\<close>

lemma close_client_files: "files (snd (close_client ev uri w)) = files w"
  by (simp add: close_client_def split: option.splits)

lemma upload_try_files: "files (snd (upload_try ev rs w)) = files w"
  by (simp add: upload_try_def Let_def close_client_files split: option.splits prod.splits)

lemma upload_try_absent:
  "uri_absent ev \<Longrightarrow>
   upload_try ev rs w = (Inl (HTTPException 500 ''MONGODB_URI environment variable not set''), w)"
  by (auto simp: uri_absent_def upload_try_def)

lemma upload_try_succeeds:
  "persistence_succeeds ev rs \<Longrightarrow>
   \<exists>w'. upload_try ev rs w = (Inr (), w') \<and> store w' = store w @ rs \<and>
        clients_opened w' = clients_opened w + 1 \<and> clients_closed w' = clients_closed w + 1"
  by (auto simp: persistence_succeeds_def upload_try_def close_client_def Let_def
      split: option.splits)

lemma upload_try_Inr:
  "upload_try ev rs w = (Inr u, w') \<Longrightarrow> store w' = store w @ rs"
  by (auto simp: upload_try_def close_client_def Let_def split: option.splits if_splits)

lemma upload_try_Inl:
  "upload_try ev rs w = (Inl e, w') \<Longrightarrow>
   store w' = store w \<or>
   (\<exists>k msg. insert_many_error ev rs = Some (k, msg) \<and> store w' = store w @ take k rs) \<or>
   (\<exists>uri msg. environ_MONGODB_URI ev = Some uri \<and> close_error ev uri = Some msg \<and>
              insert_many_error ev rs = None \<and> store w' = store w @ rs)"
  by (auto simp: upload_try_def close_client_def Let_def split: option.splits if_splits)

lemma upload_files: "files (snd (upload_to_mongodb ev rs w)) = files w"
proof -
  obtain r w' where u: "upload_try ev rs w = (r, w')" by (cases "upload_try ev rs w")
  then have "files w' = files w" using upload_try_files [of ev rs w] by simp
  with u show ?thesis by (cases r) (simp_all add: upload_to_mongodb_def)
qed

lemma upload_absent:
  "uri_absent ev \<Longrightarrow>
   upload_to_mongodb ev rs w =
     (Inl (HTTPException 500
        (''MongoDB upload failed: '' @ exc_str ev 500 ''MONGODB_URI environment variable not set'')), w)"
  by (simp add: upload_to_mongodb_def upload_try_absent str_exn_def)

lemma upload_succeeds:
  "persistence_succeeds ev rs \<Longrightarrow>
   \<exists>w'. upload_to_mongodb ev rs w = (Inr (), w') \<and> store w' = store w @ rs \<and>
        clients_opened w' = clients_opened w + 1 \<and> clients_closed w' = clients_closed w + 1"
  using upload_try_succeeds [of ev rs w] by (auto simp: upload_to_mongodb_def)

lemma upload_Inr:
  "upload_to_mongodb ev rs w = (Inr u, w') \<Longrightarrow> store w' = store w @ rs"
  by (auto simp: upload_to_mongodb_def split: prod.splits sum.splits dest: upload_try_Inr)

lemma upload_Inl:
  assumes "upload_to_mongodb ev rs w = (Inl e, w')"
  shows "(\<exists>d. e = HTTPException 500 (''MongoDB upload failed: '' @ d)) \<and>
   (store w' = store w \<or>
    (\<exists>k msg. insert_many_error ev rs = Some (k, msg) \<and> store w' = store w @ take k rs) \<or>
    (\<exists>uri msg. environ_MONGODB_URI ev = Some uri \<and> close_error ev uri = Some msg \<and>
               insert_many_error ev rs = None \<and> store w' = store w @ rs))"
proof -
  obtain r w2 where u: "upload_try ev rs w = (r, w2)" by (cases "upload_try ev rs w")
  with assms obtain e2 where r: "r = Inl e2" and w2: "w2 = w'"
    and e: "e = HTTPException 500 (''MongoDB upload failed: '' @ str_exn ev e2)"
    by (cases r) (auto simp: upload_to_mongodb_def)
  from upload_try_Inl [of ev rs w e2 w'] u r w2 e show ?thesis by blast
qed

subsection \<open>Parse, stamp, persist\<close>

lemma parse_and_upload_files: "files (snd (snd (parse_and_upload ev dt p w))) = files w"
proof -
  have "files (snd (snd (case upload_to_mongodb ev rs w of
                      (Inl e, w') \<Rightarrow> (Inl e, True, w')
                    | (Inr u, w') \<Rightarrow> (Inr (g u), True, w')))) = files w"
    for rs and g :: "unit \<Rightarrow> PDFProcessResponse"
    using upload_files [of ev rs w]
    by (cases "upload_to_mongodb ev rs w") (auto split: sum.splits)
  then show ?thesis
    by (simp add: parse_and_upload_def Let_def split: option.splits sum.splits)
qed

lemma parse_and_upload_raises:
  "files w p = Some bytes \<Longrightarrow> process_pdf_to_dataframe ev bytes = Inl msg \<Longrightarrow>
   parse_and_upload ev dt p w = (Inl (Exception msg), False, w)"
  by (simp add: parse_and_upload_def)

lemma parse_and_upload_empty:
  "files w p = Some bytes \<Longrightarrow> process_pdf_to_dataframe ev bytes = Inr df \<Longrightarrow> df_empty df \<Longrightarrow>
   parse_and_upload ev dt p w =
     (Inl (HTTPException 400 ''No data could be extracted from the PDF''), False, w)"
  by (simp add: parse_and_upload_def)

lemma parse_and_upload_frame:
  "files w p = Some bytes \<Longrightarrow> process_pdf_to_dataframe ev bytes = Inr df \<Longrightarrow> \<not> df_empty df \<Longrightarrow>
   parse_and_upload ev dt p w =
     (case upload_to_mongodb ev (stamped dt df) w of
        (Inl e, w') \<Rightarrow> (Inl e, True, w')
      | (Inr u, w') \<Rightarrow>
          (Inr \<lparr>success = True, records_count = length (stamped dt df),
                message = success_message (length (stamped dt df)),
                processing_time_ms = processing_time ev\<rparr>, True, w'))"
  by (simp add: parse_and_upload_def Let_def)

lemma parse_and_upload_Inr:
  assumes "files w p = Some bytes" and "parse_and_upload ev dt p w = (Inr resp, b, w')"
  shows "store w' = store w @ batch_of ev dt bytes \<and>
         records_count resp = length (batch_of ev dt bytes)"
proof (cases "process_pdf_to_dataframe ev bytes")
  case (Inl msg)
  with assms show ?thesis by (simp add: parse_and_upload_def)
next
  case (Inr df)
  show ?thesis
  proof (cases "df_empty df")
    case True
    with assms Inr show ?thesis by (simp add: parse_and_upload_def)
  next
    case False
    obtain r w2 where u: "upload_to_mongodb ev (stamped dt df) w = (r, w2)"
      by (cases "upload_to_mongodb ev (stamped dt df) w")
    from assms Inr False u show ?thesis
      by (cases r) (auto simp: parse_and_upload_frame batch_of_def dest: upload_Inr)
  qed
qed

lemma parse_and_upload_Inl:
  assumes "files w p = Some bytes" and "parse_and_upload ev dt p w = (Inl e, b, w')"
  shows "store w' = store w \<or>
         (\<exists>k msg. insert_many_error ev (batch_of ev dt bytes) = Some (k, msg) \<and>
                  store w' = store w @ take k (batch_of ev dt bytes)) \<or>
         (\<exists>uri msg. environ_MONGODB_URI ev = Some uri \<and> close_error ev uri = Some msg \<and>
                  insert_many_error ev (batch_of ev dt bytes) = None \<and>
                  store w' = store w @ batch_of ev dt bytes)"
proof (cases "process_pdf_to_dataframe ev bytes")
  case (Inl msg)
  with assms show ?thesis by (simp add: parse_and_upload_def)
next
  case (Inr df)
  show ?thesis
  proof (cases "df_empty df")
    case True
    with assms Inr show ?thesis by (simp add: parse_and_upload_def)
  next
    case False
    obtain r w2 where u: "upload_to_mongodb ev (stamped dt df) w = (r, w2)"
      by (cases "upload_to_mongodb ev (stamped dt df) w")
    from assms Inr False u show ?thesis
      by (cases r) (auto simp: parse_and_upload_frame batch_of_def dest: upload_Inl)
  qed
qed

lemma parse_and_upload_errors:
  assumes "parse_and_upload ev dt p w = (Inl e, b, w')"
  shows "e = HTTPException 400 ''No data could be extracted from the PDF'' \<or>
         (\<exists>d. e = HTTPException 500 (''MongoDB upload failed: '' @ d)) \<or> (\<exists>m. e = Exception m)"
proof (cases "files w p")
  case None
  with assms show ?thesis by (auto simp: parse_and_upload_def)
next
  case (Some bytes)
  show ?thesis
  proof (cases "process_pdf_to_dataframe ev bytes")
    case (Inl msg)
    with assms Some show ?thesis by (auto simp: parse_and_upload_def)
  next
    case (Inr df)
    show ?thesis
    proof (cases "df_empty df")
      case True
      with assms Some Inr show ?thesis by (auto simp: parse_and_upload_def)
    next
      case False
      obtain r w2 where u: "upload_to_mongodb ev (stamped dt df) w = (r, w2)"
        by (cases "upload_to_mongodb ev (stamped dt df) w")
      from assms Some Inr False u show ?thesis
        by (cases r) (auto simp: parse_and_upload_frame dest: upload_Inl)
    qed
  qed
qed

lemma parse_and_upload_absent:
  assumes "uri_absent ev"
  shows "store (snd (snd (parse_and_upload ev dt p w))) = store w \<and>
         clients_opened (snd (snd (parse_and_upload ev dt p w))) = clients_opened w"
  using assms
  by (simp add: parse_and_upload_def Let_def upload_absent split: option.splits sum.splits)

lemma py_int_nonneg: "0 \<le> x \<Longrightarrow> 0 \<le> py_int x"
  by (simp add: py_int_def)

subsection \<open>The handlers, path by path\<close>

lemma unlink_quietly_keeps:
  "store (unlink_quietly ev b p w) = store w \<and>
   clients_opened (unlink_quietly ev b p w) = clients_opened w \<and>
   clients_closed (unlink_quietly ev b p w) = clients_closed w"
  by (simp add: unlink_quietly_def)

lemma process_staged_split:
  obtains r b w2 where "parse_and_upload ev dt p w = (r, b, w2)"
    and "process_staged ev dt p w = (r, unlink_quietly ev b p w2)"
  by (cases "parse_and_upload ev dt p w") (auto simp: process_staged_def)

lemma handle_outer_fst:
  "fst (handle_outer rw) = (case fst rw of Inl e \<Rightarrow> Inl (outer_except e) | Inr r \<Rightarrow> Inr r)"
  by (cases rw) (auto simp: handle_outer_def split: sum.splits)

lemma handle_outer_snd: "snd (handle_outer rw) = snd rw"
  by (cases rw) (auto simp: handle_outer_def split: sum.splits)

lemma process_pdf_try_cases:
  obtains (rejected) e where "process_pdf_try ev f dt w = (Inl e, w)"
      and "\<not> accepted f"
  | (unstaged) e w1 where "process_pdf_try ev f dt w = (Inl e, w1)"
      and "NamedTemporaryFile_write ev (content f) w = (Inl e, w1)"
  | (staged) p where "files w p = None" and "accepted f"
      and "process_pdf_try ev f dt w =
           process_staged ev dt p (w\<lparr>files := (files w)(p \<mapsto> content f)\<rparr>)"
proof (cases "accepted f")
  case False
  then have "\<exists>e. process_pdf_try ev f dt w = (Inl e, w)"
    by (auto simp: accepted_def process_pdf_try_def split: option.splits)
  with False show ?thesis using rejected by blast
next
  case True
  then have eq: "process_pdf_try ev f dt w =
      (case NamedTemporaryFile_write ev (content f) w of
         (Inl e, w1) \<Rightarrow> (Inl e, w1)
       | (Inr temp_path, w1) \<Rightarrow> process_staged ev dt temp_path w1)"
    by (auto simp: accepted_def process_pdf_try_def split: option.splits)
  obtain r w1 where st: "NamedTemporaryFile_write ev (content f) w = (r, w1)"
    by (cases "NamedTemporaryFile_write ev (content f) w")
  show ?thesis
  proof (cases r)
    case (Inl e)
    with eq st show ?thesis using unstaged by simp
  next
    case (Inr p)
    with st staged_ok [of ev "content f" w p w1]
    have fp: "files w p = None" and w1: "w1 = w\<lparr>files := (files w)(p \<mapsto> content f)\<rparr>"
      by simp_all
    from eq st Inr w1 have "process_pdf_try ev f dt w =
        process_staged ev dt p (w\<lparr>files := (files w)(p \<mapsto> content f)\<rparr>)"
      by simp
    from staged [OF fp True this] show ?thesis .
  qed
qed

lemma process_pdf_base64_try_cases:
  obtains (undecodable) msg where "b64decode ev (pdf_data rq) = Inl msg"
      and "process_pdf_base64_try ev rq w = (Inl (HTTPException 400 (''Invalid base64 data: '' @ msg)), w)"
  | (unstaged) data e w1 where "process_pdf_base64_try ev rq w = (Inl e, w1)"
      and "NamedTemporaryFile_write ev data w = (Inl e, w1)"
  | (staged) data p where "files w p = None" and "b64decode ev (pdf_data rq) = Inr data"
      and "process_pdf_base64_try ev rq w =
           process_staged ev (date rq) p (w\<lparr>files := (files w)(p \<mapsto> data)\<rparr>)"
proof (cases "b64decode ev (pdf_data rq)")
  case (Inl msg)
  then show ?thesis using undecodable by (simp add: process_pdf_base64_try_def)
next
  case dec: (Inr data)
  obtain r w1 where st: "NamedTemporaryFile_write ev data w = (r, w1)"
    by (cases "NamedTemporaryFile_write ev data w")
  show ?thesis
  proof (cases r)
    case (Inl e)
    with dec st show ?thesis using unstaged by (simp add: process_pdf_base64_try_def)
  next
    case (Inr p)
    with st staged_ok [of ev data w p w1]
    have fp: "files w p = None" and w1: "w1 = w\<lparr>files := (files w)(p \<mapsto> data)\<rparr>"
      by simp_all
    from dec st Inr w1 have "process_pdf_base64_try ev rq w =
        process_staged ev (date rq) p (w\<lparr>files := (files w)(p \<mapsto> data)\<rparr>)"
      by (simp add: process_pdf_base64_try_def)
    from staged [OF fp dec this] show ?thesis .
  qed
qed

lemma process_pdf_reaches:
  assumes "accepted f" and "staging_completes ev w"
  obtains p where "files w p = None"
    and "process_pdf ev f dt w =
         handle_outer (process_staged ev dt p (w\<lparr>files := (files w)(p \<mapsto> content f)\<rparr>))"
proof -
  from staging_completes_write [OF assms(2), of "content f"] obtain p where
    p: "files w p = None"
    "NamedTemporaryFile_write ev (content f) w = (Inr p, w\<lparr>files := (files w)(p \<mapsto> content f)\<rparr>)"
    by blast
  from assms(1) p(2) have "process_pdf_try ev f dt w =
      process_staged ev dt p (w\<lparr>files := (files w)(p \<mapsto> content f)\<rparr>)"
    by (auto simp: accepted_def process_pdf_try_def split: option.splits)
  with p(1) that show ?thesis by (simp add: process_pdf_def)
qed

lemma process_pdf_base64_reaches:
  assumes "b64decode ev (pdf_data rq) = Inr data" and "staging_completes ev w"
  obtains p where "files w p = None"
    and "process_pdf_base64 ev rq w =
         handle_outer (process_staged ev (date rq) p (w\<lparr>files := (files w)(p \<mapsto> data)\<rparr>))"
proof -
  from staging_completes_write [OF assms(2), of data] obtain p where
    p: "files w p = None"
    "NamedTemporaryFile_write ev data w = (Inr p, w\<lparr>files := (files w)(p \<mapsto> data)\<rparr>)"
    by blast
  from assms(1) p(2) have "process_pdf_base64_try ev rq w =
      process_staged ev (date rq) p (w\<lparr>files := (files w)(p \<mapsto> data)\<rparr>)"
    by (simp add: process_pdf_base64_try_def)
  with p(1) that show ?thesis by (simp add: process_pdf_base64_def)
qed

text \<open>The shared part on a staged file whose extraction is empty.\<close>

lemma staged_empty:
  assumes "process_pdf_to_dataframe ev bytes = Inr df" and "df_empty df"
  shows "handle_outer (process_staged ev dt p (w\<lparr>files := (files w)(p \<mapsto> bytes)\<rparr>)) =
         (Inl (HTTPException 400 ''No data could be extracted from the PDF''),
          w\<lparr>files := (files w)(p \<mapsto> bytes)\<rparr>)"
  using assms
  by (simp add: process_staged_def parse_and_upload_empty [where bytes = bytes]
      handle_outer_def outer_except_def unlink_quietly_def)

text \<open>The shared part on a staged file on which the parser raises.\<close>

lemma staged_raises:
  assumes "process_pdf_to_dataframe ev bytes = Inl msg"
  shows "handle_outer (process_staged ev dt p (w\<lparr>files := (files w)(p \<mapsto> bytes)\<rparr>)) =
         (Inl (HTTPException 500 (''Failed to process PDF: '' @ msg)),
          w\<lparr>files := (files w)(p \<mapsto> bytes)\<rparr>)"
  using assms
  by (simp add: process_staged_def parse_and_upload_raises [where bytes = bytes]
      handle_outer_def outer_except_def unlink_quietly_def)

text \<open>The shared part on a staged file whose extraction is not empty and whose
  persistence succeeds.\<close>

lemma staged_success:
  assumes "process_pdf_to_dataframe ev bytes = Inr df" and "\<not> df_empty df"
    and "persistence_succeeds ev (stamped dt df)"
  shows "\<exists>w'. handle_outer (process_staged ev dt p (w\<lparr>files := (files w)(p \<mapsto> bytes)\<rparr>)) =
           (Inr \<lparr>success = True, records_count = length (stamped dt df),
                 message = success_message (length (stamped dt df)),
                 processing_time_ms = processing_time ev\<rparr>, w') \<and>
         store w' = store w @ stamped dt df \<and>
         clients_opened w' = clients_opened w + 1 \<and> clients_closed w' = clients_closed w + 1 \<and>
         files w' = (if unlink_fails ev then (files w)(p \<mapsto> bytes) else (files w)(p := None))"
proof -
  let ?w1 = "w\<lparr>files := (files w)(p \<mapsto> bytes)\<rparr>"
  from upload_succeeds [OF assms(3), of ?w1] obtain w2 where
    u: "upload_to_mongodb ev (stamped dt df) ?w1 = (Inr (), w2)"
    and s: "store w2 = store ?w1 @ stamped dt df"
    and c: "clients_opened w2 = clients_opened ?w1 + 1" "clients_closed w2 = clients_closed ?w1 + 1"
    by blast
  from upload_files [of ev "stamped dt df" ?w1] u have f: "files w2 = (files w)(p \<mapsto> bytes)"
    by simp
  have "parse_and_upload ev dt p ?w1 =
      (Inr \<lparr>success = True, records_count = length (stamped dt df),
            message = success_message (length (stamped dt df)),
            processing_time_ms = processing_time ev\<rparr>, True, w2)"
    using assms(1,2) u by (simp add: parse_and_upload_frame [where bytes = bytes and df = df])
  then show ?thesis using s c f
    by (simp add: process_staged_def handle_outer_def unlink_quietly_def)
qed

lemma staged_absent:
  assumes "process_pdf_to_dataframe ev bytes = Inr df" and "\<not> df_empty df" and "uri_absent ev"
  shows "fst (handle_outer (process_staged ev dt p (w\<lparr>files := (files w)(p \<mapsto> bytes)\<rparr>))) =
           Inl (HTTPException 500
             (''MongoDB upload failed: '' @
              exc_str ev 500 ''MONGODB_URI environment variable not set''))"
  using assms
  by (simp add: process_staged_def parse_and_upload_frame [where bytes = bytes and df = df]
      upload_absent handle_outer_def outer_except_def)

subsection \<open>Facts of the concrete requests\<close>

lemma Report_PDF_suffix: "endswith (lower ''Report.PDF'') ''.pdf''"
  by code_simp

lemma decode_YWJj: "b64decode_cpython ''YWJj'' = Inr ''abc''"
  by code_simp

lemma accepted_upload_pdf: "accepted upload_pdf"
  by (simp add: accepted_def upload_pdf_def max_size_def Report_PDF_suffix)

lemma staging_world0: "staging_completes env_ok world0"
  by (simp add: staging_completes_def env_ok_def world0_def)

lemma frame2_records: "length (to_dict_records frame2) = 2"
  by (simp add: to_dict_records_def frame2_def)

lemma frame2_not_empty: "\<not> df_empty frame2"
  by (simp add: df_empty_def frame2_def)

subsection \<open>The shared part of the handlers on a staged file\<close>

lemma process_staged_absent:
  assumes "uri_absent ev"
  shows "store (snd (process_staged ev dt p w)) = store w \<and>
         clients_opened (snd (process_staged ev dt p w)) = clients_opened w"
proof -
  obtain r b w2 where pu: "parse_and_upload ev dt p w = (r, b, w2)"
    and ps: "process_staged ev dt p w = (r, unlink_quietly ev b p w2)"
    by (rule process_staged_split)
  from parse_and_upload_absent [OF assms, of dt p w] pu
  have "store w2 = store w \<and> clients_opened w2 = clients_opened w" by simp
  then show ?thesis by (simp add: ps unlink_quietly_keeps)
qed

lemma staged_success_report:
  assumes parse: "process_pdf_to_dataframe ev bytes = Inr df"
    and count: "length (to_dict_records df) = N" "0 < N"
    and persist: "persistence_succeeds ev (stamped dt df)"
    and clock: "time_start ev \<le> time_end ev"
  shows "\<exists>resp w'.
           handle_outer (process_staged ev dt p (w\<lparr>files := (files w)(p \<mapsto> bytes)\<rparr>)) =
             (Inr resp, w') \<and>
           success resp \<and> records_count resp = N \<and> message resp = success_message N \<and>
           0 \<le> processing_time_ms resp \<and>
           store w' = store w @ stamped dt df \<and> length (stamped dt df) = N \<and>
           (\<forall>d \<in> set (stamped dt df). d ''date'' = Some (Str dt))"
proof -
  from count have ne: "\<not> df_empty df"
    using no_records_iff_empty [of df] by auto
  then have cols: "columns df \<noteq> [] \<or> index_len df = 0"
    by (simp add: df_empty_def)
  have st: "stamped dt df = map (\<lambda>r. r(''date'' \<mapsto> Str dt)) (to_dict_records df)"
    by (rule to_dict_records_setitem [OF cols])
  have len: "length (stamped dt df) = N"
    using count(1) by (simp add: st)
  have dates: "\<forall>d \<in> set (stamped dt df). d ''date'' = Some (Str dt)"
    by (auto simp: st)
  have "0 \<le> (time_end ev - time_start ev) * 1000"
    using clock by simp
  then have time: "0 \<le> processing_time ev"
    unfolding processing_time_def by (rule py_int_nonneg)
  from staged_success [OF parse ne persist, of p w] obtain w' where
    "handle_outer (process_staged ev dt p (w\<lparr>files := (files w)(p \<mapsto> bytes)\<rparr>)) =
       (Inr \<lparr>success = True, records_count = length (stamped dt df),
             message = success_message (length (stamped dt df)),
             processing_time_ms = processing_time ev\<rparr>, w')"
    and "store w' = store w @ stamped dt df"
    by blast
  with len dates time show ?thesis by simp
qed

lemma success_message_contains:
  "success_message N =
     ''PDF processed successfully. '' @ (str_nat N @ '' records'') @
     '' extracted and uploaded to MongoDB.''"
  by (simp add: success_message_def)

subsection \<open>Failures of the driver, and the files after a request\<close>

lemma upload_ping_fails:
  assumes "environ_MONGODB_URI ev = Some uri" and "uri \<noteq> []"
    and "MongoClient_error ev uri = None" and "ping_error ev uri = Some msg"
  shows "upload_to_mongodb ev rs w =
           (Inl (HTTPException 500 (''MongoDB upload failed: '' @ msg)),
            w\<lparr>clients_opened := clients_opened w + 1\<rparr>)"
  using assms by (simp add: upload_to_mongodb_def upload_try_def str_exn_def)

lemma upload_insert_fails:
  assumes "environ_MONGODB_URI ev = Some uri" and "uri \<noteq> []"
    and "MongoClient_error ev uri = None" and "ping_error ev uri = None"
    and "rs \<noteq> []" and "insert_many_error ev rs = Some (k, msg)"
  shows "upload_to_mongodb ev rs w =
           (Inl (HTTPException 500 (''MongoDB upload failed: '' @ msg)),
            w\<lparr>clients_opened := clients_opened w + 1, store := store w @ take k rs\<rparr>)"
  using assms by (simp add: upload_to_mongodb_def upload_try_def str_exn_def)

lemma upload_close_fails:
  assumes "environ_MONGODB_URI ev = Some uri" and "uri \<noteq> []"
    and "MongoClient_error ev uri = None" and "ping_error ev uri = None"
    and "insert_many_error ev rs = None" and "close_error ev uri = Some msg"
  shows "upload_to_mongodb ev rs w =
           (Inl (HTTPException 500 (''MongoDB upload failed: '' @ msg)),
            w\<lparr>clients_opened := clients_opened w + 1, store := store w @ rs\<rparr>)"
  using assms
  by (cases "rs = []") (simp_all add: upload_to_mongodb_def upload_try_def close_client_def str_exn_def)

lemma staged_upload_fails:
  assumes "process_pdf_to_dataframe ev bytes = Inr df" and "\<not> df_empty df"
    and "upload_to_mongodb ev (stamped dt df) (w\<lparr>files := (files w)(p \<mapsto> bytes)\<rparr>) =
           (Inl (HTTPException s d), w2)"
  shows "handle_outer (process_staged ev dt p (w\<lparr>files := (files w)(p \<mapsto> bytes)\<rparr>)) =
           (Inl (HTTPException s d), unlink_quietly ev True p w2)"
  using assms
  by (simp add: process_staged_def parse_and_upload_frame [where bytes = bytes and df = df]
      handle_outer_def outer_except_def)

lemma frame2_stamped_length: "length (stamped dt frame2) = 2"
  using to_dict_records_setitem [of frame2 "''date''" "Str dt"] frame2_records
  by (simp add: frame2_def)

lemma process_staged_store:
  assumes "files w p = Some bytes" and "process_staged ev dt p w = (r, w')"
  shows "case r of
           Inr resp \<Rightarrow> store w' = store w @ batch_of ev dt bytes \<and>
                       records_count resp = length (batch_of ev dt bytes)
         | Inl e \<Rightarrow> store w' = store w \<or>
                    (\<exists>k msg. insert_many_error ev (batch_of ev dt bytes) = Some (k, msg) \<and>
                             store w' = store w @ take k (batch_of ev dt bytes)) \<or>
                    (\<exists>uri msg. environ_MONGODB_URI ev = Some uri \<and>
                             close_error ev uri = Some msg \<and>
                             insert_many_error ev (batch_of ev dt bytes) = None \<and>
                             store w' = store w @ batch_of ev dt bytes)"
proof -
  obtain r2 b w2 where pu: "parse_and_upload ev dt p w = (r2, b, w2)"
    and ps: "process_staged ev dt p w = (r2, unlink_quietly ev b p w2)"
    by (rule process_staged_split)
  from ps assms(2) have eq: "r2 = r" "w' = unlink_quietly ev b p w2" by simp_all
  show ?thesis
  proof (cases r)
    case (Inl e)
    with pu eq parse_and_upload_Inl [OF assms(1), of ev dt e b w2] show ?thesis
      by (simp add: unlink_quietly_keeps)
  next
    case (Inr resp)
    with pu eq parse_and_upload_Inr [OF assms(1), of ev dt resp b w2] show ?thesis
      by (simp add: unlink_quietly_keeps)
  qed
qed

lemma process_staged_errors:
  assumes "process_staged ev dt p w = (Inl e, w')"
  shows "e = HTTPException 400 ''No data could be extracted from the PDF'' \<or>
         (\<exists>d. e = HTTPException 500 (''MongoDB upload failed: '' @ d)) \<or> (\<exists>m. e = Exception m)"
proof -
  obtain r2 b w2 where pu: "parse_and_upload ev dt p w = (r2, b, w2)"
    and ps: "process_staged ev dt p w = (r2, unlink_quietly ev b p w2)"
    by (rule process_staged_split)
  from ps assms have "r2 = Inl e" by simp
  with pu show ?thesis using parse_and_upload_errors [of ev dt p w e b w2] by simp
qed

section \<open>The claims\<close>

subsection \<open>C5: a file name without the .pdf suffix is rejected before staging\<close>

text \<open>
  C5. For every multipart request whose file name does not end in \<^verbatim>\<open>.pdf\<close>, compared
  case-insensitively, the request fails with HTTP 400 and the detail
  \<^verbatim>\<open>File must be a PDF\<close>, and the world the handler leaves is the world it found: no
  temporary file has been created, whatever the staging collaborators would have done.
\<close>

theorem non_pdf_rejected_before_staging:
  assumes "filename pdf_file = Some name" and "\<not> endswith (lower name) ''.pdf''"
  shows "process_pdf ev pdf_file dt w = (Inl (HTTPException 400 ''File must be a PDF''), w)"
  using assms by (simp add: process_pdf_def process_pdf_try_def handle_outer_def outer_except_def)

theorem non_pdf_rejected_before_staging_witness:
  "filename upload_txt = Some ''notes.txt'' \<and> \<not> endswith (lower ''notes.txt'') ''.pdf'' \<and>
   process_pdf env_ok upload_txt ''15/01/2024'' world0 =
     (Inl (HTTPException 400 ''File must be a PDF''), world0)"
proof -
  have h1: "filename upload_txt = Some ''notes.txt''" by (simp add: upload_txt_def)
  have h2: "\<not> endswith (lower ''notes.txt'') ''.pdf''" by code_simp
  show ?thesis using h1 h2 non_pdf_rejected_before_staging [OF h1 h2] by simp
qed

subsection \<open>C7: stamping the records with the date\<close>

text \<open>
  C7. The stamping of lines 114--118 (\<^verbatim>\<open>df['date'] = date\<close> followed by
  \<^verbatim>\<open>df.to_dict('records')\<close>) yields exactly as many records as the frame has, each
  equal to the frame's record with the field \<^verbatim>\<open>date\<close> set to the supplied string as it
  is, an earlier \<^verbatim>\<open>date\<close> field being overwritten. It holds for every frame that has a
  column or has no row, which is every frame that holds a record and every frame the
  handlers stamp (they stamp after the guard \<^verbatim>\<open>df.empty\<close>). The transform is a HOL
  function, hence total and deterministic.
\<close>

theorem stamping_is_total:
  assumes "columns df \<noteq> [] \<or> index_len df = 0"
  shows "length (stamped dt df) = length (to_dict_records df) \<and>
         stamped dt df = map (\<lambda>r. r(''date'' \<mapsto> Str dt)) (to_dict_records df) \<and>
         (\<forall>i < length (to_dict_records df). (stamped dt df ! i) ''date'' = Some (Str dt))"
  using to_dict_records_setitem [OF assms, of "''date''" "Str dt"] by simp

theorem stamping_is_total_witness:
  "columns frame2 \<noteq> [] \<and>
   length (stamped ''15/01/2024'' frame2) = length (to_dict_records frame2) \<and>
   stamped ''15/01/2024'' frame2 =
     map (\<lambda>r. r(''date'' \<mapsto> Str ''15/01/2024'')) (to_dict_records frame2) \<and>
   length (to_dict_records frame2) = 2"
proof -
  have c: "columns frame2 \<noteq> []" by (simp add: frame2_def)
  then have h: "columns frame2 \<noteq> [] \<or> index_len frame2 = 0" by simp
  have n: "length (to_dict_records frame2) = 2" by (simp add: to_dict_records_def frame2_def)
  show ?thesis using c n stamping_is_total [OF h, of "''15/01/2024''"] by simp
qed

subsection \<open>C10: an upload that reports no size\<close>

text \<open>
  C10. For a multipart request whose file name passes the suffix check and whose
  \<^verbatim>\<open>size\<close> is \<^verbatim>\<open>None\<close>, the comparison \<^verbatim>\<open>pdf_file.size > max_size\<close> raises a
  \<^verbatim>\<open>TypeError\<close>; the outer handler turns it into HTTP 500 with a detail that begins
  \<^verbatim>\<open>Failed to process PDF\<close>, not into a 400, and nothing has been staged.
\<close>

theorem missing_size_is_internal_error:
  assumes "filename pdf_file = Some name" and "endswith (lower name) ''.pdf''"
    and "file_size pdf_file = None"
  shows "process_pdf ev pdf_file dt w =
           (Inl (HTTPException 500 (''Failed to process PDF: '' @ TypeError_gt)), w)"
  using assms by (simp add: process_pdf_def process_pdf_try_def handle_outer_def outer_except_def)

theorem missing_size_is_internal_error_witness:
  "filename upload_no_size = Some ''report.pdf'' \<and> endswith (lower ''report.pdf'') ''.pdf'' \<and>
   file_size upload_no_size = None \<and>
   process_pdf env_ok upload_no_size ''15/01/2024'' world0 =
     (Inl (HTTPException 500 (''Failed to process PDF: '' @ TypeError_gt)), world0)"
proof -
  have h1: "filename upload_no_size = Some ''report.pdf''" by (simp add: upload_no_size_def)
  have h2: "endswith (lower ''report.pdf'') ''.pdf''" by code_simp
  have h3: "file_size upload_no_size = None" by (simp add: upload_no_size_def)
  show ?thesis using h1 h2 h3 missing_size_is_internal_error [OF h1 h2 h3] by simp
qed

subsection \<open>C6: an extraction without records\<close>

text \<open>
  C6. For every request of either handler that passes the checks and is staged, and
  whose extraction yields zero records, the request fails with HTTP 400 and the detail
  \<^verbatim>\<open>No data could be extracted from the PDF\<close>, and the store is left as it was.
\<close>

theorem empty_extraction_fails:
  "(accepted f \<and> staging_completes ev w \<and> process_pdf_to_dataframe ev (content f) = Inr df \<and>
    to_dict_records df = [] \<longrightarrow>
      fst (process_pdf ev f dt w) =
        Inl (HTTPException 400 ''No data could be extracted from the PDF'') \<and>
      store (snd (process_pdf ev f dt w)) = store w) \<and>
   (b64decode ev (pdf_data rq) = Inr data \<and> staging_completes ev w \<and>
    process_pdf_to_dataframe ev data = Inr df' \<and> to_dict_records df' = [] \<longrightarrow>
      fst (process_pdf_base64 ev rq w) =
        Inl (HTTPException 400 ''No data could be extracted from the PDF'') \<and>
      store (snd (process_pdf_base64 ev rq w)) = store w)"
proof (intro conjI impI; elim conjE)
  assume a: "accepted f" "staging_completes ev w"
    and d: "process_pdf_to_dataframe ev (content f) = Inr df" "to_dict_records df = []"
  from d(2) have e: "df_empty df" by (simp add: no_records_iff_empty)
  from a obtain p where "process_pdf ev f dt w =
      handle_outer (process_staged ev dt p (w\<lparr>files := (files w)(p \<mapsto> content f)\<rparr>))"
    by (rule process_pdf_reaches)
  then have r: "process_pdf ev f dt w =
      (Inl (HTTPException 400 ''No data could be extracted from the PDF''),
       w\<lparr>files := (files w)(p \<mapsto> content f)\<rparr>)"
    by (simp add: staged_empty [OF d(1) e])
  show "fst (process_pdf ev f dt w) =
      Inl (HTTPException 400 ''No data could be extracted from the PDF'')"
    by (simp add: r)
  show "store (snd (process_pdf ev f dt w)) = store w"
    by (simp add: r)
next
  assume a: "b64decode ev (pdf_data rq) = Inr data" "staging_completes ev w"
    and d: "process_pdf_to_dataframe ev data = Inr df'" "to_dict_records df' = []"
  from d(2) have e: "df_empty df'" by (simp add: no_records_iff_empty)
  from a obtain p where "process_pdf_base64 ev rq w =
      handle_outer (process_staged ev (date rq) p (w\<lparr>files := (files w)(p \<mapsto> data)\<rparr>))"
    by (rule process_pdf_base64_reaches)
  then have r: "process_pdf_base64 ev rq w =
      (Inl (HTTPException 400 ''No data could be extracted from the PDF''),
       w\<lparr>files := (files w)(p \<mapsto> data)\<rparr>)"
    by (simp add: staged_empty [OF d(1) e])
  show "fst (process_pdf_base64 ev rq w) =
      Inl (HTTPException 400 ''No data could be extracted from the PDF'')"
    by (simp add: r)
  show "store (snd (process_pdf_base64 ev rq w)) = store w"
    by (simp add: r)
qed

theorem empty_extraction_fails_witness:
  "accepted upload_pdf \<and> staging_completes env_no_rows world0 \<and>
   process_pdf_to_dataframe env_no_rows (content upload_pdf) = Inr frame0 \<and>
   to_dict_records frame0 = [] \<and>
   fst (process_pdf env_no_rows upload_pdf ''15/01/2024'' world0) =
     Inl (HTTPException 400 ''No data could be extracted from the PDF'') \<and>
   store (snd (process_pdf env_no_rows upload_pdf ''15/01/2024'' world0)) = store world0 \<and>
   b64decode env_no_rows (pdf_data request_b64) = Inr ''abc'' \<and>
   process_pdf_to_dataframe env_no_rows ''abc'' = Inr frame0 \<and>
   fst (process_pdf_base64 env_no_rows request_b64 world0) =
     Inl (HTTPException 400 ''No data could be extracted from the PDF'') \<and>
   store (snd (process_pdf_base64 env_no_rows request_b64 world0)) = store world0"
proof -
  have h1: "accepted upload_pdf" by (rule accepted_upload_pdf)
  have h2: "staging_completes env_no_rows world0"
    by (simp add: staging_completes_def env_no_rows_def env_ok_def world0_def)
  have h3: "process_pdf_to_dataframe env_no_rows (content upload_pdf) = Inr frame0"
    by (simp add: env_no_rows_def)
  have h4: "to_dict_records frame0 = []"
    by (simp add: to_dict_records_def frame0_def)
  have h5: "b64decode env_no_rows (pdf_data request_b64) = Inr ''abc''"
    by (simp add: env_no_rows_def env_ok_def request_b64_def decode_YWJj)
  have h6: "process_pdf_to_dataframe env_no_rows ''abc'' = Inr frame0"
    by (simp add: env_no_rows_def)
  note t = empty_extraction_fails [of upload_pdf env_no_rows world0 frame0 "''15/01/2024''"
        request_b64 "''abc''" frame0]
  from t h1 h2 h3 h4 have m:
    "fst (process_pdf env_no_rows upload_pdf ''15/01/2024'' world0) =
       Inl (HTTPException 400 ''No data could be extracted from the PDF'') \<and>
     store (snd (process_pdf env_no_rows upload_pdf ''15/01/2024'' world0)) = store world0"
    by blast
  from t h5 h2 h6 h4 have b:
    "fst (process_pdf_base64 env_no_rows request_b64 world0) =
       Inl (HTTPException 400 ''No data could be extracted from the PDF'') \<and>
     store (snd (process_pdf_base64 env_no_rows request_b64 world0)) = store world0"
    by blast
  from h1 h2 h3 h4 h5 h6 m b show ?thesis by blast
qed

subsection \<open>C9: the response and the store on success\<close>

text \<open>
  C9, amended. For every request of either handler that passes the checks and is staged,
  whose extraction yields \<open>N > 0\<close> records and whose persistence succeeds, and for which
  the clock reading taken before the response is built is not earlier than the one
  taken at the entry (\<^verbatim>\<open>time.time()\<close> is the wall clock, which can be set back), the
  response has \<open>success = True\<close>, \<open>records_count = N\<close>, a message that contains
  \<open>N\<close> in decimal followed by \<^verbatim>\<open> records\<close>, and \<open>processing_time_ms \<ge> 0\<close>; the
  store gains exactly the \<open>N\<close> stamped records, each with the supplied date.
\<close>

theorem success_response_and_store:
  assumes "time_start ev \<le> time_end ev"
  shows
    "(accepted f \<and> staging_completes ev w \<and>
      process_pdf_to_dataframe ev (content f) = Inr df \<and>
      length (to_dict_records df) = N \<and> 0 < N \<and> persistence_succeeds ev (stamped dt df) \<longrightarrow>
        (\<exists>resp w'. process_pdf ev f dt w = (Inr resp, w') \<and>
           success resp \<and> records_count resp = N \<and>
           (\<exists>pre post. message resp = pre @ (str_nat N @ '' records'') @ post) \<and>
           0 \<le> processing_time_ms resp \<and>
           store w' = store w @ stamped dt df \<and> length (stamped dt df) = N \<and>
           (\<forall>d \<in> set (stamped dt df). d ''date'' = Some (Str dt)))) \<and>
     (b64decode ev (pdf_data rq) = Inr data \<and> staging_completes ev w \<and>
      process_pdf_to_dataframe ev data = Inr df' \<and>
      length (to_dict_records df') = M \<and> 0 < M \<and>
      persistence_succeeds ev (stamped (date rq) df') \<longrightarrow>
        (\<exists>resp w'. process_pdf_base64 ev rq w = (Inr resp, w') \<and>
           success resp \<and> records_count resp = M \<and>
           (\<exists>pre post. message resp = pre @ (str_nat M @ '' records'') @ post) \<and>
           0 \<le> processing_time_ms resp \<and>
           store w' = store w @ stamped (date rq) df' \<and> length (stamped (date rq) df') = M \<and>
           (\<forall>d \<in> set (stamped (date rq) df'). d ''date'' = Some (Str (date rq)))))"
proof (intro conjI impI; elim conjE)
  assume a: "accepted f" "staging_completes ev w"
    and d: "process_pdf_to_dataframe ev (content f) = Inr df"
      "length (to_dict_records df) = N" "0 < N" "persistence_succeeds ev (stamped dt df)"
  from a obtain p where r: "process_pdf ev f dt w =
      handle_outer (process_staged ev dt p (w\<lparr>files := (files w)(p \<mapsto> content f)\<rparr>))"
    by (rule process_pdf_reaches)
  from staged_success_report [OF d assms, of p w] obtain resp w' where
    "process_pdf ev f dt w = (Inr resp, w')" "success resp" "records_count resp = N"
    "message resp = success_message N" "0 \<le> processing_time_ms resp"
    "store w' = store w @ stamped dt df" "length (stamped dt df) = N"
    "\<forall>d \<in> set (stamped dt df). d ''date'' = Some (Str dt)"
    unfolding r by blast
  moreover from this(4) have
    "\<exists>pre post. message resp = pre @ (str_nat N @ '' records'') @ post"
    using success_message_contains [of N] by metis
  ultimately show "\<exists>resp w'. process_pdf ev f dt w = (Inr resp, w') \<and>
      success resp \<and> records_count resp = N \<and>
      (\<exists>pre post. message resp = pre @ (str_nat N @ '' records'') @ post) \<and>
      0 \<le> processing_time_ms resp \<and>
      store w' = store w @ stamped dt df \<and> length (stamped dt df) = N \<and>
      (\<forall>d \<in> set (stamped dt df). d ''date'' = Some (Str dt))"
    by blast
next
  assume a: "b64decode ev (pdf_data rq) = Inr data" "staging_completes ev w"
    and d: "process_pdf_to_dataframe ev data = Inr df'"
      "length (to_dict_records df') = M" "0 < M"
      "persistence_succeeds ev (stamped (date rq) df')"
  from a obtain p where r: "process_pdf_base64 ev rq w =
      handle_outer (process_staged ev (date rq) p (w\<lparr>files := (files w)(p \<mapsto> data)\<rparr>))"
    by (rule process_pdf_base64_reaches)
  from staged_success_report [OF d assms, of p w] obtain resp w' where
    "process_pdf_base64 ev rq w = (Inr resp, w')" "success resp" "records_count resp = M"
    "message resp = success_message M" "0 \<le> processing_time_ms resp"
    "store w' = store w @ stamped (date rq) df'" "length (stamped (date rq) df') = M"
    "\<forall>d \<in> set (stamped (date rq) df'). d ''date'' = Some (Str (date rq))"
    unfolding r by blast
  moreover from this(4) have
    "\<exists>pre post. message resp = pre @ (str_nat M @ '' records'') @ post"
    using success_message_contains [of M] by metis
  ultimately show "\<exists>resp w'. process_pdf_base64 ev rq w = (Inr resp, w') \<and>
      success resp \<and> records_count resp = M \<and>
      (\<exists>pre post. message resp = pre @ (str_nat M @ '' records'') @ post) \<and>
      0 \<le> processing_time_ms resp \<and>
      store w' = store w @ stamped (date rq) df' \<and> length (stamped (date rq) df') = M \<and>
      (\<forall>d \<in> set (stamped (date rq) df'). d ''date'' = Some (Str (date rq)))"
    by blast
qed

theorem success_response_and_store_witness:
  "time_start env_ok \<le> time_end env_ok \<and> accepted upload_pdf \<and>
   staging_completes env_ok world0 \<and>
   process_pdf_to_dataframe env_ok (content upload_pdf) = Inr frame2 \<and>
   length (to_dict_records frame2) = 2 \<and>
   persistence_succeeds env_ok (stamped ''15/01/2024'' frame2) \<and>
   (\<exists>resp w'. process_pdf env_ok upload_pdf ''15/01/2024'' world0 = (Inr resp, w') \<and>
      success resp \<and> records_count resp = 2 \<and>
      (\<exists>pre post. message resp = pre @ (str_nat 2 @ '' records'') @ post) \<and>
      0 \<le> processing_time_ms resp \<and>
      store w' = store world0 @ stamped ''15/01/2024'' frame2 \<and>
      length (stamped ''15/01/2024'' frame2) = 2 \<and>
      (\<forall>d \<in> set (stamped ''15/01/2024'' frame2). d ''date'' = Some (Str ''15/01/2024''))) \<and>
   str_nat 2 = ''2''"
proof -
  have h0: "time_start env_ok \<le> time_end env_ok" by (simp add: env_ok_def)
  have h1: "accepted upload_pdf" by (rule accepted_upload_pdf)
  have h2: "staging_completes env_ok world0" by (rule staging_world0)
  have h3: "process_pdf_to_dataframe env_ok (content upload_pdf) = Inr frame2"
    by (simp add: env_ok_def)
  have h4: "length (to_dict_records frame2) = 2" by (rule frame2_records)
  have h5: "persistence_succeeds env_ok (stamped ''15/01/2024'' frame2)"
    by (simp add: persistence_succeeds_def env_ok_def)
  have h6: "str_nat 2 = ''2''" by code_simp
  have pos: "0 < (2::nat)" by simp
  note t = success_response_and_store [OF h0, of upload_pdf world0 frame2 2 "''15/01/2024''",
      THEN conjunct1, rule_format, OF conjI [OF h1 conjI [OF h2 conjI [OF h3 conjI [OF h4 conjI [OF pos h5]]]]]]
  from h0 h1 h2 h3 h4 h5 h6 t show ?thesis by blast
qed

theorem negative_processing_time_counterexample:
  "accepted upload_pdf \<and> staging_completes env_clock_back world0 \<and>
   process_pdf_to_dataframe env_clock_back (content upload_pdf) = Inr frame2 \<and>
   length (to_dict_records frame2) = 2 \<and>
   persistence_succeeds env_clock_back (stamped ''15/01/2024'' frame2) \<and>
   (\<exists>resp w'. process_pdf env_clock_back upload_pdf ''15/01/2024'' world0 = (Inr resp, w') \<and>
      processing_time_ms resp = - 1000)"
proof -
  have h1: "accepted upload_pdf" by (rule accepted_upload_pdf)
  have h2: "staging_completes env_clock_back world0"
    by (simp add: staging_completes_def env_clock_back_def env_ok_def world0_def)
  have h3: "process_pdf_to_dataframe env_clock_back (content upload_pdf) = Inr frame2"
    by (simp add: env_clock_back_def env_ok_def)
  have h4: "length (to_dict_records frame2) = 2" by (rule frame2_records)
  have h5: "persistence_succeeds env_clock_back (stamped ''15/01/2024'' frame2)"
    by (simp add: persistence_succeeds_def env_clock_back_def env_ok_def)
  have t: "processing_time env_clock_back = - 1000"
    by (simp add: processing_time_def py_int_def env_clock_back_def env_ok_def)
  from h1 h2 obtain p where r: "process_pdf env_clock_back upload_pdf ''15/01/2024'' world0 =
      handle_outer (process_staged env_clock_back ''15/01/2024'' p
        (world0\<lparr>files := (files world0)(p \<mapsto> content upload_pdf)\<rparr>))"
    by (rule process_pdf_reaches)
  from staged_success [OF h3 frame2_not_empty h5, of p world0] t
  have "\<exists>resp w'. process_pdf env_clock_back upload_pdf ''15/01/2024'' world0 = (Inr resp, w') \<and>
      processing_time_ms resp = - 1000"
    unfolding r by auto
  with h1 h2 h3 h4 h5 show ?thesis by blast
qed

subsection \<open>C1: the connection string is not set\<close>

text \<open>
  C1, amended. With the connection string absent (not set, or empty), no request of
  either handler opens a connection or inserts a document, whatever its outcome; and
  every request that reaches the persistence step, that is, passes the checks, is
  staged and has a non-empty extraction, fails with HTTP status 500 and the detail
  \<^verbatim>\<open>MongoDB upload failed: \<close> followed by the text of the exception raised for the
  missing variable, \<^verbatim>\<open>str(HTTPException(500, "MONGODB_URI environment variable not set"))\<close>.
  A request that is rejected earlier fails with the error of that earlier step.
\<close>

theorem missing_uri_no_persistence:
  assumes "uri_absent ev"
  shows
    "store (snd (process_pdf ev f dt w)) = store w \<and>
     clients_opened (snd (process_pdf ev f dt w)) = clients_opened w \<and>
     store (snd (process_pdf_base64 ev rq w)) = store w \<and>
     clients_opened (snd (process_pdf_base64 ev rq w)) = clients_opened w \<and>
     (accepted f \<and> staging_completes ev w \<and>
      process_pdf_to_dataframe ev (content f) = Inr df \<and> \<not> df_empty df \<longrightarrow>
        fst (process_pdf ev f dt w) =
          Inl (HTTPException 500
            (''MongoDB upload failed: '' @
             exc_str ev 500 ''MONGODB_URI environment variable not set''))) \<and>
     (b64decode ev (pdf_data rq) = Inr data \<and> staging_completes ev w \<and>
      process_pdf_to_dataframe ev data = Inr df' \<and> \<not> df_empty df' \<longrightarrow>
        fst (process_pdf_base64 ev rq w) =
          Inl (HTTPException 500
            (''MongoDB upload failed: '' @
             exc_str ev 500 ''MONGODB_URI environment variable not set'')))"
proof -
  have m: "store (snd (process_pdf_try ev f dt w)) = store w \<and>
           clients_opened (snd (process_pdf_try ev f dt w)) = clients_opened w"
  proof (cases rule: process_pdf_try_cases [of ev f dt w])
    case (rejected e)
    then show ?thesis by simp
  next
    case (unstaged e w1)
    then show ?thesis using staged_fail [of ev "content f" w e w1] by simp
  next
    case (staged p)
    then show ?thesis using process_staged_absent [OF assms] by simp
  qed
  have b: "store (snd (process_pdf_base64_try ev rq w)) = store w \<and>
           clients_opened (snd (process_pdf_base64_try ev rq w)) = clients_opened w"
  proof (cases rule: process_pdf_base64_try_cases [of ev rq w])
    case (undecodable msg)
    then show ?thesis by simp
  next
    case (unstaged data e w1)
    then show ?thesis using staged_fail [of ev data w e w1] by simp
  next
    case (staged data p)
    then show ?thesis using process_staged_absent [OF assms] by simp
  qed
  have m5: "fst (process_pdf ev f dt w) =
      Inl (HTTPException 500
        (''MongoDB upload failed: '' @ exc_str ev 500 ''MONGODB_URI environment variable not set''))"
    if "accepted f" "staging_completes ev w"
      "process_pdf_to_dataframe ev (content f) = Inr df" "\<not> df_empty df"
  proof -
    from that(1,2) obtain p where "process_pdf ev f dt w =
        handle_outer (process_staged ev dt p (w\<lparr>files := (files w)(p \<mapsto> content f)\<rparr>))"
      by (rule process_pdf_reaches)
    then show ?thesis using staged_absent [OF that(3,4) assms] by simp
  qed
  have b5: "fst (process_pdf_base64 ev rq w) =
      Inl (HTTPException 500
        (''MongoDB upload failed: '' @ exc_str ev 500 ''MONGODB_URI environment variable not set''))"
    if "b64decode ev (pdf_data rq) = Inr data" "staging_completes ev w"
      "process_pdf_to_dataframe ev data = Inr df'" "\<not> df_empty df'"
  proof -
    from that(1,2) obtain p where "process_pdf_base64 ev rq w =
        handle_outer (process_staged ev (date rq) p (w\<lparr>files := (files w)(p \<mapsto> data)\<rparr>))"
      by (rule process_pdf_base64_reaches)
    then show ?thesis using staged_absent [OF that(3,4) assms] by simp
  qed
  from m b m5 b5 show ?thesis
    by (simp add: process_pdf_def process_pdf_base64_def handle_outer_snd)
qed

theorem missing_uri_no_persistence_witness:
  "uri_absent env_no_uri \<and> accepted upload_pdf \<and> staging_completes env_no_uri world0 \<and>
   process_pdf_to_dataframe env_no_uri (content upload_pdf) = Inr frame2 \<and>
   store (snd (process_pdf env_no_uri upload_pdf ''15/01/2024'' world0)) = store world0 \<and>
   clients_opened (snd (process_pdf env_no_uri upload_pdf ''15/01/2024'' world0)) =
     clients_opened world0 \<and>
   fst (process_pdf env_no_uri upload_pdf ''15/01/2024'' world0) =
     Inl (HTTPException 500
       (''MongoDB upload failed: '' @
        exc_str env_no_uri 500 ''MONGODB_URI environment variable not set'')) \<and>
   exc_str env_no_uri 500 ''MONGODB_URI environment variable not set'' =
     ''500: MONGODB_URI environment variable not set''"
proof -
  have n: "str_nat 500 = ''500''" by code_simp
  have x: "exc_str env_no_uri 500 ''MONGODB_URI environment variable not set'' =
     ''500: MONGODB_URI environment variable not set''"
    by (simp add: env_no_uri_def env_ok_def n)
  have h0: "uri_absent env_no_uri" by (simp add: uri_absent_def env_no_uri_def)
  have h1: "accepted upload_pdf" by (rule accepted_upload_pdf)
  have h2: "staging_completes env_no_uri world0"
    by (simp add: staging_completes_def env_no_uri_def env_ok_def world0_def)
  have h3: "process_pdf_to_dataframe env_no_uri (content upload_pdf) = Inr frame2"
    by (simp add: env_no_uri_def env_ok_def)
  note t = missing_uri_no_persistence [OF h0, of upload_pdf "''15/01/2024''" world0
      request_b64 frame2 "''abc''" frame2]
  from h0 h1 h2 h3 frame2_not_empty t x show ?thesis by blast
qed

theorem missing_uri_counterexample:
  "uri_absent env_no_uri \<and>
   process_pdf env_no_uri upload_txt ''15/01/2024'' world0 =
     (Inl (HTTPException 400 ''File must be a PDF''), world0) \<and>
   uri_absent env_no_uri_no_rows \<and>
   fst (process_pdf_base64 env_no_uri_no_rows request_b64 world0) =
     Inl (HTTPException 400 ''No data could be extracted from the PDF'')"
proof -
  have h0: "uri_absent env_no_uri" by (simp add: uri_absent_def env_no_uri_def)
  have h1: "uri_absent env_no_uri_no_rows"
    by (simp add: uri_absent_def env_no_uri_no_rows_def)
  have n: "\<not> endswith (lower ''notes.txt'') ''.pdf''" by code_simp
  have m: "process_pdf env_no_uri upload_txt ''15/01/2024'' world0 =
     (Inl (HTTPException 400 ''File must be a PDF''), world0)"
    using n
    by (simp add: process_pdf_def process_pdf_try_def handle_outer_def outer_except_def
        upload_txt_def)
  have d: "b64decode env_no_uri_no_rows (pdf_data request_b64) = Inr ''abc''"
    by (simp add: env_no_uri_no_rows_def env_no_rows_def env_ok_def request_b64_def decode_YWJj)
  have s: "staging_completes env_no_uri_no_rows world0"
    by (simp add: staging_completes_def env_no_uri_no_rows_def env_no_rows_def env_ok_def
        world0_def)
  have f: "process_pdf_to_dataframe env_no_uri_no_rows ''abc'' = Inr frame0"
    by (simp add: env_no_uri_no_rows_def env_no_rows_def)
  have e: "df_empty frame0" by (simp add: df_empty_def frame0_def)
  from d s obtain p where "process_pdf_base64 env_no_uri_no_rows request_b64 world0 =
      handle_outer (process_staged env_no_uri_no_rows (date request_b64) p
        (world0\<lparr>files := (files world0)(p \<mapsto> ''abc'')\<rparr>))"
    by (rule process_pdf_base64_reaches)
  then have b: "fst (process_pdf_base64 env_no_uri_no_rows request_b64 world0) =
     Inl (HTTPException 400 ''No data could be extracted from the PDF'')"
    by (simp add: staged_empty [OF f e])
  from h0 h1 m b show ?thesis by blast
qed

subsection \<open>C2: what a request leaves in the store\<close>

text \<open>
  C2, amended. A request that succeeds has added the entire batch of stamped records
  to the store, and its \<open>records_count\<close> is the size of that batch. A request that
  fails has left the store as it was, or has added the entire batch (the insert went
  through and closing the client raised), or, when the bulk insert itself raised, has
  added the records the insert had stored before it raised, a prefix of the batch:
  nothing is rolled back, so a failing insert is the one way to a reported failure
  with some but not all records stored.
\<close>

theorem store_after_request:
  "(case process_pdf ev f dt w of
      (Inr resp, w') \<Rightarrow>
        store w' = store w @ batch_of ev dt (content f) \<and>
        records_count resp = length (batch_of ev dt (content f))
    | (Inl e, w') \<Rightarrow>
        store w' = store w \<or>
        (\<exists>k msg. insert_many_error ev (batch_of ev dt (content f)) = Some (k, msg) \<and>
                 store w' = store w @ take k (batch_of ev dt (content f))) \<or>
        (\<exists>uri msg. environ_MONGODB_URI ev = Some uri \<and> close_error ev uri = Some msg \<and>
                 insert_many_error ev (batch_of ev dt (content f)) = None \<and>
                 store w' = store w @ batch_of ev dt (content f))) \<and>
   (case process_pdf_base64 ev rq w of
      (Inr resp, w') \<Rightarrow>
        (\<exists>data. b64decode ev (pdf_data rq) = Inr data \<and>
                store w' = store w @ batch_of ev (date rq) data \<and>
                records_count resp = length (batch_of ev (date rq) data))
    | (Inl e, w') \<Rightarrow>
        store w' = store w \<or>
        (\<exists>data k msg. b64decode ev (pdf_data rq) = Inr data \<and>
                 insert_many_error ev (batch_of ev (date rq) data) = Some (k, msg) \<and>
                 store w' = store w @ take k (batch_of ev (date rq) data)) \<or>
        (\<exists>data uri msg. b64decode ev (pdf_data rq) = Inr data \<and>
                 environ_MONGODB_URI ev = Some uri \<and> close_error ev uri = Some msg \<and>
                 insert_many_error ev (batch_of ev (date rq) data) = None \<and>
                 store w' = store w @ batch_of ev (date rq) data))"
proof
  obtain r w' where t: "process_pdf_try ev f dt w = (r, w')"
    by (cases "process_pdf_try ev f dt w")
  have "case r of
          Inr resp \<Rightarrow> store w' = store w @ batch_of ev dt (content f) \<and>
                      records_count resp = length (batch_of ev dt (content f))
        | Inl e \<Rightarrow> store w' = store w \<or>
                   (\<exists>k msg. insert_many_error ev (batch_of ev dt (content f)) = Some (k, msg) \<and>
                            store w' = store w @ take k (batch_of ev dt (content f))) \<or>
                   (\<exists>uri msg. environ_MONGODB_URI ev = Some uri \<and>
                            close_error ev uri = Some msg \<and>
                            insert_many_error ev (batch_of ev dt (content f)) = None \<and>
                            store w' = store w @ batch_of ev dt (content f))"
  proof (cases rule: process_pdf_try_cases [of ev f dt w])
    case (rejected e)
    with t show ?thesis by auto
  next
    case (unstaged e w1)
    with t staged_fail [of ev "content f" w e w1] show ?thesis by auto
  next
    case (staged p)
    with t have "process_staged ev dt p (w\<lparr>files := (files w)(p \<mapsto> content f)\<rparr>) = (r, w')"
      by simp
    from process_staged_store [OF _ this, of "content f"] show ?thesis
      by (cases r) simp_all
  qed
  with t show "case process_pdf ev f dt w of
      (Inr resp, w') \<Rightarrow>
        store w' = store w @ batch_of ev dt (content f) \<and>
        records_count resp = length (batch_of ev dt (content f))
    | (Inl e, w') \<Rightarrow>
        store w' = store w \<or>
        (\<exists>k msg. insert_many_error ev (batch_of ev dt (content f)) = Some (k, msg) \<and>
                 store w' = store w @ take k (batch_of ev dt (content f))) \<or>
        (\<exists>uri msg. environ_MONGODB_URI ev = Some uri \<and> close_error ev uri = Some msg \<and>
                 insert_many_error ev (batch_of ev dt (content f)) = None \<and>
                 store w' = store w @ batch_of ev dt (content f))"
    by (cases r) (simp_all add: process_pdf_def handle_outer_def)
next
  obtain r w' where t: "process_pdf_base64_try ev rq w = (r, w')"
    by (cases "process_pdf_base64_try ev rq w")
  have "case r of
          Inr resp \<Rightarrow>
            (\<exists>data. b64decode ev (pdf_data rq) = Inr data \<and>
                    store w' = store w @ batch_of ev (date rq) data \<and>
                    records_count resp = length (batch_of ev (date rq) data))
        | Inl e \<Rightarrow> store w' = store w \<or>
            (\<exists>data k msg. b64decode ev (pdf_data rq) = Inr data \<and>
                     insert_many_error ev (batch_of ev (date rq) data) = Some (k, msg) \<and>
                     store w' = store w @ take k (batch_of ev (date rq) data)) \<or>
            (\<exists>data uri msg. b64decode ev (pdf_data rq) = Inr data \<and>
                     environ_MONGODB_URI ev = Some uri \<and> close_error ev uri = Some msg \<and>
                     insert_many_error ev (batch_of ev (date rq) data) = None \<and>
                     store w' = store w @ batch_of ev (date rq) data)"
  proof (cases rule: process_pdf_base64_try_cases [of ev rq w])
    case (undecodable msg)
    with t show ?thesis by auto
  next
    case (unstaged data e w1)
    with t staged_fail [of ev data w e w1] show ?thesis by auto
  next
    case (staged data p)
    with t have "process_staged ev (date rq) p (w\<lparr>files := (files w)(p \<mapsto> data)\<rparr>) = (r, w')"
      by simp
    from process_staged_store [OF _ this, of data] staged(2) show ?thesis
      by (cases r) auto
  qed
  with t show "case process_pdf_base64 ev rq w of
      (Inr resp, w') \<Rightarrow>
        (\<exists>data. b64decode ev (pdf_data rq) = Inr data \<and>
                store w' = store w @ batch_of ev (date rq) data \<and>
                records_count resp = length (batch_of ev (date rq) data))
    | (Inl e, w') \<Rightarrow>
        store w' = store w \<or>
        (\<exists>data k msg. b64decode ev (pdf_data rq) = Inr data \<and>
                 insert_many_error ev (batch_of ev (date rq) data) = Some (k, msg) \<and>
                 store w' = store w @ take k (batch_of ev (date rq) data)) \<or>
        (\<exists>data uri msg. b64decode ev (pdf_data rq) = Inr data \<and>
                 environ_MONGODB_URI ev = Some uri \<and> close_error ev uri = Some msg \<and>
                 insert_many_error ev (batch_of ev (date rq) data) = None \<and>
                 store w' = store w @ batch_of ev (date rq) data)"
    by (cases r) (simp_all add: process_pdf_base64_def handle_outer_def)
qed

theorem partial_batch_counterexample:
  "fst (process_pdf env_insert_partial upload_pdf ''15/01/2024'' world0) =
     Inl (HTTPException 500 ''MongoDB upload failed: write error'') \<and>
   store (snd (process_pdf env_insert_partial upload_pdf ''15/01/2024'' world0)) =
     take 1 (stamped ''15/01/2024'' frame2) \<and>
   length (take 1 (stamped ''15/01/2024'' frame2)) = 1 \<and>
   length (stamped ''15/01/2024'' frame2) = 2"
proof -
  let ?rs = "stamped ''15/01/2024'' frame2"
  have len: "length ?rs = 2" by (rule frame2_stamped_length)
  then have ne: "?rs \<noteq> []" by auto
  have h2: "staging_completes env_insert_partial world0"
    by (simp add: staging_completes_def env_insert_partial_def env_ok_def world0_def)
  have h3: "process_pdf_to_dataframe env_insert_partial (content upload_pdf) = Inr frame2"
    by (simp add: env_insert_partial_def env_ok_def)
  from accepted_upload_pdf h2 obtain p where
    r: "process_pdf env_insert_partial upload_pdf ''15/01/2024'' world0 =
      handle_outer (process_staged env_insert_partial ''15/01/2024'' p
        (world0\<lparr>files := (files world0)(p \<mapsto> content upload_pdf)\<rparr>))"
    by (rule process_pdf_reaches)
  let ?w1 = "world0\<lparr>files := (files world0)(p \<mapsto> content upload_pdf)\<rparr>"
  have u: "upload_to_mongodb env_insert_partial ?rs ?w1 =
      (Inl (HTTPException 500 (''MongoDB upload failed: '' @ ''write error'')),
       ?w1\<lparr>clients_opened := clients_opened ?w1 + 1, store := store ?w1 @ take 1 ?rs\<rparr>)"
    by (rule upload_insert_fails [where uri = "''mongodb://db''"])
      (simp_all add: env_insert_partial_def env_ok_def ne)
  have "process_pdf env_insert_partial upload_pdf ''15/01/2024'' world0 =
      (Inl (HTTPException 500 (''MongoDB upload failed: '' @ ''write error'')),
       unlink_quietly env_insert_partial True p
         (?w1\<lparr>clients_opened := clients_opened ?w1 + 1, store := store ?w1 @ take 1 ?rs\<rparr>))"
    unfolding r by (rule staged_upload_fails [OF h3 frame2_not_empty u])
  then have "fst (process_pdf env_insert_partial upload_pdf ''15/01/2024'' world0) =
       Inl (HTTPException 500 ''MongoDB upload failed: write error'')"
    and "store (snd (process_pdf env_insert_partial upload_pdf ''15/01/2024'' world0)) =
       take 1 ?rs"
    by (simp_all add: unlink_quietly_keeps world0_def)
  with len show ?thesis by simp
qed

text \<open>The other failure after the insert: closing the client raises, and the request
  reports HTTP 500 with the whole batch stored.\<close>

lemma close_failure_keeps_batch:
  "fst (process_pdf env_close_raises upload_pdf ''15/01/2024'' world0) =
     Inl (HTTPException 500 ''MongoDB upload failed: connection reset'') \<and>
   store (snd (process_pdf env_close_raises upload_pdf ''15/01/2024'' world0)) =
     stamped ''15/01/2024'' frame2"
proof -
  let ?rs = "stamped ''15/01/2024'' frame2"
  have h2: "staging_completes env_close_raises world0"
    by (simp add: staging_completes_def env_close_raises_def env_ok_def world0_def)
  have h3: "process_pdf_to_dataframe env_close_raises (content upload_pdf) = Inr frame2"
    by (simp add: env_close_raises_def env_ok_def)
  from accepted_upload_pdf h2 obtain p where
    r: "process_pdf env_close_raises upload_pdf ''15/01/2024'' world0 =
      handle_outer (process_staged env_close_raises ''15/01/2024'' p
        (world0\<lparr>files := (files world0)(p \<mapsto> content upload_pdf)\<rparr>))"
    by (rule process_pdf_reaches)
  let ?w1 = "world0\<lparr>files := (files world0)(p \<mapsto> content upload_pdf)\<rparr>"
  have u: "upload_to_mongodb env_close_raises ?rs ?w1 =
      (Inl (HTTPException 500 (''MongoDB upload failed: '' @ ''connection reset'')),
       ?w1\<lparr>clients_opened := clients_opened ?w1 + 1, store := store ?w1 @ ?rs\<rparr>)"
    by (rule upload_close_fails [where uri = "''mongodb://db''"])
      (simp_all add: env_close_raises_def env_ok_def)
  have "process_pdf env_close_raises upload_pdf ''15/01/2024'' world0 =
      (Inl (HTTPException 500 (''MongoDB upload failed: '' @ ''connection reset'')),
       unlink_quietly env_close_raises True p
         (?w1\<lparr>clients_opened := clients_opened ?w1 + 1, store := store ?w1 @ ?rs\<rparr>))"
    unfolding r by (rule staged_upload_fails [OF h3 frame2_not_empty u])
  then show ?thesis by (simp add: unlink_quietly_keeps world0_def)
qed

subsection \<open>C3: the connection after a failure\<close>

text \<open>
  C3. The statement \<^verbatim>\<open>client.close()\<close> is the last statement of the inner \<^verbatim>\<open>try\<close>,
  and its \<^verbatim>\<open>except\<close> branch does not close the client. On the concrete requests: when
  the ping raises, and when the bulk insert raises, one client has been opened and none
  closed at the end of the request; when nothing raises, the one client opened has been
  closed.
\<close>

theorem client_left_open_on_failure:
  "fst (process_pdf env_ping_down upload_pdf ''15/01/2024'' world0) =
     Inl (HTTPException 500 ''MongoDB upload failed: timed out'') \<and>
   clients_opened (snd (process_pdf env_ping_down upload_pdf ''15/01/2024'' world0)) = 1 \<and>
   clients_closed (snd (process_pdf env_ping_down upload_pdf ''15/01/2024'' world0)) = 0 \<and>
   fst (process_pdf env_insert_partial upload_pdf ''15/01/2024'' world0) =
     Inl (HTTPException 500 ''MongoDB upload failed: write error'') \<and>
   clients_opened (snd (process_pdf env_insert_partial upload_pdf ''15/01/2024'' world0)) = 1 \<and>
   clients_closed (snd (process_pdf env_insert_partial upload_pdf ''15/01/2024'' world0)) = 0 \<and>
   clients_opened (snd (process_pdf env_ok upload_pdf ''15/01/2024'' world0)) = 1 \<and>
   clients_closed (snd (process_pdf env_ok upload_pdf ''15/01/2024'' world0)) = 1"
proof -
  let ?rs = "stamped ''15/01/2024'' frame2"
  have ne: "?rs \<noteq> []" using frame2_stamped_length [of "''15/01/2024''"] by auto
  have ping: "fst (process_pdf env_ping_down upload_pdf ''15/01/2024'' world0) =
       Inl (HTTPException 500 ''MongoDB upload failed: timed out'') \<and>
     clients_opened (snd (process_pdf env_ping_down upload_pdf ''15/01/2024'' world0)) = 1 \<and>
     clients_closed (snd (process_pdf env_ping_down upload_pdf ''15/01/2024'' world0)) = 0"
  proof -
    have h2: "staging_completes env_ping_down world0"
      by (simp add: staging_completes_def env_ping_down_def env_ok_def world0_def)
    have h3: "process_pdf_to_dataframe env_ping_down (content upload_pdf) = Inr frame2"
      by (simp add: env_ping_down_def env_ok_def)
    from accepted_upload_pdf h2 obtain p where
      r: "process_pdf env_ping_down upload_pdf ''15/01/2024'' world0 =
        handle_outer (process_staged env_ping_down ''15/01/2024'' p
          (world0\<lparr>files := (files world0)(p \<mapsto> content upload_pdf)\<rparr>))"
      by (rule process_pdf_reaches)
    let ?w1 = "world0\<lparr>files := (files world0)(p \<mapsto> content upload_pdf)\<rparr>"
    have u: "upload_to_mongodb env_ping_down ?rs ?w1 =
        (Inl (HTTPException 500 (''MongoDB upload failed: '' @ ''timed out'')),
         ?w1\<lparr>clients_opened := clients_opened ?w1 + 1\<rparr>)"
      by (rule upload_ping_fails [where uri = "''mongodb://db''"])
        (simp_all add: env_ping_down_def env_ok_def)
    have "process_pdf env_ping_down upload_pdf ''15/01/2024'' world0 =
        (Inl (HTTPException 500 (''MongoDB upload failed: '' @ ''timed out'')),
         unlink_quietly env_ping_down True p
           (?w1\<lparr>clients_opened := clients_opened ?w1 + 1\<rparr>))"
      unfolding r by (rule staged_upload_fails [OF h3 frame2_not_empty u])
    then show ?thesis by (simp add: unlink_quietly_keeps world0_def)
  qed
  have ins: "fst (process_pdf env_insert_partial upload_pdf ''15/01/2024'' world0) =
       Inl (HTTPException 500 ''MongoDB upload failed: write error'') \<and>
     clients_opened (snd (process_pdf env_insert_partial upload_pdf ''15/01/2024'' world0)) = 1 \<and>
     clients_closed (snd (process_pdf env_insert_partial upload_pdf ''15/01/2024'' world0)) = 0"
  proof -
    have h2: "staging_completes env_insert_partial world0"
      by (simp add: staging_completes_def env_insert_partial_def env_ok_def world0_def)
    have h3: "process_pdf_to_dataframe env_insert_partial (content upload_pdf) = Inr frame2"
      by (simp add: env_insert_partial_def env_ok_def)
    from accepted_upload_pdf h2 obtain p where
      r: "process_pdf env_insert_partial upload_pdf ''15/01/2024'' world0 =
        handle_outer (process_staged env_insert_partial ''15/01/2024'' p
          (world0\<lparr>files := (files world0)(p \<mapsto> content upload_pdf)\<rparr>))"
      by (rule process_pdf_reaches)
    let ?w1 = "world0\<lparr>files := (files world0)(p \<mapsto> content upload_pdf)\<rparr>"
    have u: "upload_to_mongodb env_insert_partial ?rs ?w1 =
        (Inl (HTTPException 500 (''MongoDB upload failed: '' @ ''write error'')),
         ?w1\<lparr>clients_opened := clients_opened ?w1 + 1, store := store ?w1 @ take 1 ?rs\<rparr>)"
      by (rule upload_insert_fails [where uri = "''mongodb://db''"])
        (simp_all add: env_insert_partial_def env_ok_def ne)
    have "process_pdf env_insert_partial upload_pdf ''15/01/2024'' world0 =
        (Inl (HTTPException 500 (''MongoDB upload failed: '' @ ''write error'')),
         unlink_quietly env_insert_partial True p
           (?w1\<lparr>clients_opened := clients_opened ?w1 + 1, store := store ?w1 @ take 1 ?rs\<rparr>))"
      unfolding r by (rule staged_upload_fails [OF h3 frame2_not_empty u])
    then show ?thesis by (simp add: unlink_quietly_keeps world0_def)
  qed
  have ok: "clients_opened (snd (process_pdf env_ok upload_pdf ''15/01/2024'' world0)) = 1 \<and>
     clients_closed (snd (process_pdf env_ok upload_pdf ''15/01/2024'' world0)) = 1"
  proof -
    have h3: "process_pdf_to_dataframe env_ok (content upload_pdf) = Inr frame2"
      by (simp add: env_ok_def)
    have h5: "persistence_succeeds env_ok ?rs"
      by (simp add: persistence_succeeds_def env_ok_def)
    from accepted_upload_pdf staging_world0 obtain p where
      r: "process_pdf env_ok upload_pdf ''15/01/2024'' world0 =
        handle_outer (process_staged env_ok ''15/01/2024'' p
          (world0\<lparr>files := (files world0)(p \<mapsto> content upload_pdf)\<rparr>))"
      by (rule process_pdf_reaches)
    from staged_success [OF h3 frame2_not_empty h5, of p world0] show ?thesis
      unfolding r by (auto simp: world0_def)
  qed
  from ping ins ok show ?thesis by blast
qed

subsection \<open>C4: the size limit\<close>

text \<open>
  C4, amended. For every multipart request whose file name ends in \<^verbatim>\<open>.pdf\<close>
  (case-insensitively) and whose reported size exceeds 10 MiB, the request fails with
  HTTP 400 and the detail \<^verbatim>\<open>File size must be less than 10MB\<close>, with nothing staged;
  the suffix check comes first, so an oversized upload under another name fails that
  check instead. No request of the base64 handler fails with the size error, whatever
  the size of its payload.
\<close>

theorem size_limit_multipart_only:
  "(filename f = Some name \<and> endswith (lower name) ''.pdf'' \<and> file_size f = Some n \<and>
    max_size < n \<longrightarrow>
      process_pdf ev f dt w =
        (Inl (HTTPException 400 ''File size must be less than 10MB''), w)) \<and>
   fst (process_pdf_base64 ev rq w) \<noteq>
     Inl (HTTPException 400 ''File size must be less than 10MB'')"
proof
  show "filename f = Some name \<and> endswith (lower name) ''.pdf'' \<and> file_size f = Some n \<and>
    max_size < n \<longrightarrow>
      process_pdf ev f dt w =
        (Inl (HTTPException 400 ''File size must be less than 10MB''), w)"
    by (simp add: process_pdf_def process_pdf_try_def handle_outer_def outer_except_def)
next
  obtain r w' where t: "process_pdf_base64_try ev rq w = (r, w')"
    by (cases "process_pdf_base64_try ev rq w")
  have "case r of Inr resp \<Rightarrow> True
        | Inl e \<Rightarrow> outer_except e \<noteq> HTTPException 400 ''File size must be less than 10MB''"
  proof (cases rule: process_pdf_base64_try_cases [of ev rq w])
    case (undecodable msg)
    with t show ?thesis by (auto simp: outer_except_def)
  next
    case (unstaged data e w1)
    with t staged_fail [of ev data w e w1] show ?thesis by (auto simp: outer_except_def)
  next
    case (staged data p)
    show ?thesis
    proof (cases r)
      case (Inl e)
      with t staged have "process_staged ev (date rq) p (w\<lparr>files := (files w)(p \<mapsto> data)\<rparr>) =
          (Inl e, w')"
        by simp
      from process_staged_errors [OF this] Inl show ?thesis
        by (auto simp: outer_except_def)
    next
      case (Inr resp)
      then show ?thesis by simp
    qed
  qed
  with t show "fst (process_pdf_base64 ev rq w) \<noteq>
      Inl (HTTPException 400 ''File size must be less than 10MB'')"
    by (cases r) (simp_all add: process_pdf_base64_def handle_outer_def)
qed

theorem size_limit_multipart_only_witness:
  "filename upload_big_pdf = Some ''big.pdf'' \<and> endswith (lower ''big.pdf'') ''.pdf'' \<and>
   file_size upload_big_pdf = Some 11534336 \<and> length (content upload_big_pdf) = 11534336 \<and>
   max_size < 11534336 \<and>
   process_pdf env_ok upload_big_pdf ''15/01/2024'' world0 =
     (Inl (HTTPException 400 ''File size must be less than 10MB''), world0) \<and>
   fst (process_pdf_base64 env_ok request_b64 world0) \<noteq>
     Inl (HTTPException 400 ''File size must be less than 10MB'')"
proof -
  have h1: "filename upload_big_pdf = Some ''big.pdf''" by (simp add: upload_big_pdf_def)
  have h2: "endswith (lower ''big.pdf'') ''.pdf''" by code_simp
  have h3: "file_size upload_big_pdf = Some 11534336" by (simp add: upload_big_pdf_def)
  have h4: "max_size < 11534336" by (simp add: max_size_def)
  have h5: "length (content upload_big_pdf) = 11534336" by (simp add: upload_big_pdf_def)
  note t = size_limit_multipart_only [of upload_big_pdf "''big.pdf''" 11534336 env_ok
      "''15/01/2024''" world0 request_b64]
  from h1 h2 h3 h4 h5 t show ?thesis by blast
qed

theorem oversized_non_pdf_counterexample:
  "file_size upload_big_txt = Some 11534336 \<and> length (content upload_big_txt) = 11534336 \<and>
   max_size < 11534336 \<and>
   process_pdf env_ok upload_big_txt ''15/01/2024'' world0 =
     (Inl (HTTPException 400 ''File must be a PDF''), world0)"
proof -
  have n: "\<not> endswith (lower ''notes.txt'') ''.pdf''" by code_simp
  have "process_pdf env_ok upload_big_txt ''15/01/2024'' world0 =
     (Inl (HTTPException 400 ''File must be a PDF''), world0)"
    using n
    by (simp add: process_pdf_def process_pdf_try_def handle_outer_def outer_except_def
        upload_big_txt_def)
  then show ?thesis by (simp add: upload_big_txt_def max_size_def)
qed

subsection \<open>C8: the temporary file after the request\<close>

text \<open>
  C8. The \<^verbatim>\<open>finally\<close> of lines 161--166 (257--262) deletes the temporary file through
  the name \<open>os\<close>, which line 124 (220) makes a local variable of the handler. On the
  concrete requests, with a deletion that would not fail: when the extraction is empty
  (HTTP 400), and when the parser raises (HTTP 500), the request ends before that line,
  the deletion raises and is swallowed, and the staged file is still there; when the
  request runs through to its response the file is gone.
\<close>

theorem temporary_file_left_on_early_exit:
  "\<not> unlink_fails env_no_rows \<and> files world0 ''/tmp/tmpa1.pdf'' = None \<and>
   process_pdf env_no_rows upload_pdf ''15/01/2024'' world0 =
     (Inl (HTTPException 400 ''No data could be extracted from the PDF''),
      world0\<lparr>files := (files world0)(''/tmp/tmpa1.pdf'' \<mapsto> ''abc'')\<rparr>) \<and>
   \<not> unlink_fails env_parser_raises \<and>
   process_pdf_base64 env_parser_raises request_b64 world0 =
     (Inl (HTTPException 500 ''Failed to process PDF: EOF marker not found''),
      world0\<lparr>files := (files world0)(''/tmp/tmpa1.pdf'' \<mapsto> ''abc'')\<rparr>) \<and>
   (\<exists>resp w'. process_pdf env_ok upload_pdf ''15/01/2024'' world0 = (Inr resp, w') \<and>
      files w' = files world0)"
proof -
  let ?p = "''/tmp/tmpa1.pdf''"
  let ?w1 = "world0\<lparr>files := (files world0)(?p \<mapsto> ''abc'')\<rparr>"
  have f0: "files world0 ?p = None" by (simp add: world0_def)
  have u1: "\<not> unlink_fails env_no_rows" by (simp add: env_no_rows_def env_ok_def)
  have u2: "\<not> unlink_fails env_parser_raises" by (simp add: env_parser_raises_def env_ok_def)
  have u3: "\<not> unlink_fails env_ok" by (simp add: env_ok_def)
  have st1: "NamedTemporaryFile_write env_no_rows ''abc'' world0 = (Inr ?p, ?w1)"
    by (simp add: NamedTemporaryFile_write_def env_no_rows_def env_ok_def world0_def)
  have r1: "process_pdf env_no_rows upload_pdf ''15/01/2024'' world0 =
      handle_outer (process_staged env_no_rows ''15/01/2024'' ?p ?w1)"
    using Report_PDF_suffix st1
    by (simp add: process_pdf_def process_pdf_try_def upload_pdf_def max_size_def)
  have p1: "process_pdf_to_dataframe env_no_rows ''abc'' = Inr frame0"
    by (simp add: env_no_rows_def)
  have e1: "df_empty frame0" by (simp add: df_empty_def frame0_def)
  have c1: "process_pdf env_no_rows upload_pdf ''15/01/2024'' world0 =
     (Inl (HTTPException 400 ''No data could be extracted from the PDF''), ?w1)"
    unfolding r1 by (rule staged_empty [OF p1 e1])
  have st2: "NamedTemporaryFile_write env_parser_raises ''abc'' world0 = (Inr ?p, ?w1)"
    by (simp add: NamedTemporaryFile_write_def env_parser_raises_def env_ok_def world0_def)
  have d2: "b64decode env_parser_raises (pdf_data request_b64) = Inr ''abc''"
    by (simp add: env_parser_raises_def env_ok_def request_b64_def decode_YWJj)
  have r2: "process_pdf_base64 env_parser_raises request_b64 world0 =
      handle_outer (process_staged env_parser_raises (date request_b64) ?p ?w1)"
    using d2 st2 by (simp add: process_pdf_base64_def process_pdf_base64_try_def)
  have p2: "process_pdf_to_dataframe env_parser_raises ''abc'' = Inl ''EOF marker not found''"
    by (simp add: env_parser_raises_def)
  have c2: "process_pdf_base64 env_parser_raises request_b64 world0 =
     (Inl (HTTPException 500 ''Failed to process PDF: EOF marker not found''), ?w1)"
    unfolding r2 using staged_raises [OF p2, of "date request_b64" ?p world0] by simp
  have st3: "NamedTemporaryFile_write env_ok ''abc'' world0 = (Inr ?p, ?w1)"
    by (simp add: NamedTemporaryFile_write_def env_ok_def world0_def)
  have r3: "process_pdf env_ok upload_pdf ''15/01/2024'' world0 =
      handle_outer (process_staged env_ok ''15/01/2024'' ?p ?w1)"
    using Report_PDF_suffix st3
    by (simp add: process_pdf_def process_pdf_try_def upload_pdf_def max_size_def)
  have p3: "process_pdf_to_dataframe env_ok ''abc'' = Inr frame2" by (simp add: env_ok_def)
  have h3: "persistence_succeeds env_ok (stamped ''15/01/2024'' frame2)"
    by (simp add: persistence_succeeds_def env_ok_def)
  have "(files world0)(?p := None) = files world0"
    by (simp add: world0_def)
  with staged_success [OF p3 frame2_not_empty h3, of ?p world0] u3
  have c3: "\<exists>resp w'. process_pdf env_ok upload_pdf ''15/01/2024'' world0 = (Inr resp, w') \<and>
      files w' = files world0"
    unfolding r3 by auto
  from u1 f0 c1 u2 c2 c3 show ?thesis by blast
qed

end
